theory Spec2Isabelle
  imports Main "HOL-Library.Word"
begin


section \<open>Common types\<close>

text \<open>
  \<open>TimePoint\<close> is \<open>MonotonicClock::time_point\<close>: a signed 64-bit count of microseconds
  (\<open>rep = std::int64_t\<close>), read here as an integer. The C codec keeps deadlines as
  \<open>CanardMicrosecond\<close>, an unsigned 64-bit value; the conversions between the two are
  written out where the source performs them.
\<close>

type_synonym TimePoint = int
type_synonym byte = "8 word"
type_synonym NodeId = "16 word"
type_synonym PortId = "16 word"
type_synonym CanardNodeID = "8 word"
type_synonym CanardMicrosecond = "64 word"

datatype MediaError = MediaArgumentError | MediaPlatformError | MediaCapacityError

record CanardFrame =
  extended_can_id :: "32 word"
  payload :: "byte list"

record CanardTxQueueItem =
  tx_deadline_usec :: CanardMicrosecond
  frame :: CanardFrame

text \<open>
  The codec's TX queue is a priority-ordered structure; \<open>canardTxPeek\<close> returns its top
  item and \<open>canardTxPop\<close> unlinks the item it is given. The queue is kept here as the
  list of its items in arbitration order, top first.
\<close>

record CanardTxQueue =
  capacity :: nat
  mtu_bytes :: nat
  items :: "CanardTxQueueItem list"

definition canardTxPeek :: "CanardTxQueue \<Rightarrow> CanardTxQueueItem option" where
  "canardTxPeek que = (case items que of [] \<Rightarrow> None | x # _ \<Rightarrow> Some x)"

definition canardTxPop :: "CanardTxQueue \<Rightarrow> CanardTxQueueItem \<Rightarrow> CanardTxQueue" where
  "canardTxPop que item = que\<lparr>items := remove1 item (items que)\<rparr>"

text \<open>\<open>TransportImpl::Media\<close>: a media index, its interface and its TX queue.\<close>

record 'm Media =
  index :: "8 word"
  interface :: 'm
  canard_tx_queue :: CanardTxQueue

section \<open>Draining the TX queues: \<open>runMediaTransmit\<close>\<close>

text \<open>
  \<open>IMedia::push\<close> is supplied by the platform. It is a parameter of the model: a function
  of the interface it is called on, the deadline, the CAN identifier, the payload and the
  state \<open>'w\<close> of the outside world, returning \<open>Expected<bool, MediaError>\<close> (\<open>Inr True\<close>:
  accepted, \<open>Inr False\<close>: busy, \<open>Inl e\<close>: media error) and the new state of the world.

  Each run of the loop over one queue also yields the list of what it did: the calls of
  \<open>push\<close> with their results, and the items popped and freed.
\<close>

type_synonym ('m, 'w) push_fn =
  "'m \<Rightarrow> TimePoint \<Rightarrow> 32 word \<Rightarrow> byte list \<Rightarrow> 'w \<Rightarrow> (MediaError + bool) \<times> 'w"

datatype TxEvent =
  PushCall CanardTxQueueItem "MediaError + bool"
  | PopFree CanardTxQueueItem

definition deadline_of :: "CanardTxQueueItem \<Rightarrow> TimePoint" where
  "deadline_of tx_item = sint (tx_deadline_usec tx_item)"

text \<open>The \<open>while\<close> loop over the frames of one media.\<close>

function runMediaTransmit_frames ::
  "('m, 'w) push_fn \<Rightarrow> TimePoint \<Rightarrow> 'm \<Rightarrow> CanardTxQueue \<Rightarrow> 'w
     \<Rightarrow> CanardTxQueue \<times> 'w \<times> TxEvent list" where
  "runMediaTransmit_frames push now ifc que w =
     (case canardTxPeek que of
        None \<Rightarrow> (que, w, [])
      | Some tx_item \<Rightarrow>
          (let deadline = deadline_of tx_item in
           if now < deadline then
             (let (maybe_pushed, w') =
                    push ifc deadline (extended_can_id (frame tx_item)) (payload (frame tx_item)) w
              in if maybe_pushed = Inr False
                 then (que, w', [PushCall tx_item maybe_pushed])
                 else (let (que', w'', evs) =
                             runMediaTransmit_frames push now ifc (canardTxPop que tx_item) w'
                       in (que', w'', PushCall tx_item maybe_pushed # PopFree tx_item # evs)))
           else (let (que', w', evs) =
                       runMediaTransmit_frames push now ifc (canardTxPop que tx_item) w
                 in (que', w', PopFree tx_item # evs))))"
  by pat_completeness auto
termination
  by (relation "measure (\<lambda>(push, now, ifc, que, w). length (items que))")
     (auto simp: canardTxPeek_def canardTxPop_def split: list.splits)

declare runMediaTransmit_frames.simps [simp del]

text \<open>The \<open>for\<close> loop over the media array; one list of events per media, in array order.\<close>

fun runMediaTransmit ::
  "('m, 'w) push_fn \<Rightarrow> TimePoint \<Rightarrow> 'm Media list \<Rightarrow> 'w
     \<Rightarrow> 'm Media list \<times> 'w \<times> TxEvent list list" where
  "runMediaTransmit push now [] w = ([], w, [])"
| "runMediaTransmit push now (media # rest) w =
     (let (que', w', evs) =
            runMediaTransmit_frames push now (interface media) (canard_tx_queue media) w;
          (rest', w'', evss) = runMediaTransmit push now rest w'
      in (media\<lparr>canard_tx_queue := que'\<rparr> # rest', w'', evs # evss))"

section \<open>Enqueueing a transfer on every media: \<open>sendTransfer\<close>\<close>

datatype AnyError =
  ArgumentError | MemoryError | AlreadyExistsError | NotImplementedError | OtherError int

text \<open>\<open>FactoryError\<close> is the variant of \<open>ArgumentError\<close> and \<open>MemoryError\<close>.\<close>

type_synonym FactoryError = AnyError

text \<open>
  Modelled from the spec: \<open>transport::detail::ContiguousPayload\<close> (its header is not among
  the sources). It coalesces the caller's payload fragments into one contiguous buffer if
  more than one fragment is non-empty; the buffer comes from the memory resource, whose
  allocation may fail (\<open>alloc_ok\<close>). The result is the pair of \<open>data()\<close> (\<open>None\<close> is the
  null pointer) and \<open>size()\<close>.
\<close>

definition ContiguousPayload :: "bool \<Rightarrow> byte list list \<Rightarrow> byte list option \<times> nat" where
  "ContiguousPayload alloc_ok payload_fragments =
     (let non_empty = filter (\<lambda>frag. frag \<noteq> []) payload_fragments;
          payload_size = sum_list (map length non_empty)
      in if length non_empty > 1
         then (if alloc_ok then Some (concat non_empty) else None, payload_size)
         else (case non_empty of [] \<Rightarrow> (None, 0) | frag # _ \<Rightarrow> (Some frag, payload_size)))"

text \<open>
  \<open>canardTxPush\<close> (the codec's fragment-and-enqueue operation), \<open>IMedia::getMtu\<close> and
  \<open>TransportDelegate::anyErrorFromCanard\<close> are parameters. \<open>canardTxPush\<close> receives the
  queue, the local node id of the codec instance, the deadline, the transfer metadata
  \<open>'md\<close>, the payload size and data and the world; it returns its \<open>int32_t\<close> result
  (negative: error) and the queue it leaves.
\<close>

type_synonym ('md, 'w) tx_push_fn =
  "CanardTxQueue \<Rightarrow> CanardNodeID \<Rightarrow> CanardMicrosecond \<Rightarrow> 'md \<Rightarrow> nat \<Rightarrow> byte list option \<Rightarrow> 'w
     \<Rightarrow> (int \<times> CanardTxQueue) \<times> 'w"

definition propagateMtuToTxQueue :: "('m \<Rightarrow> 'w \<Rightarrow> nat) \<Rightarrow> 'w \<Rightarrow> 'm Media \<Rightarrow> 'm Media" where
  "propagateMtuToTxQueue getMtu w media =
     media\<lparr>canard_tx_queue := (canard_tx_queue media)\<lparr>mtu_bytes := getMtu (interface media) w\<rparr>\<rparr>"

text \<open>
  The loop of \<open>sendTransfer\<close> over the media array, with \<open>maybe_error\<close> as its accumulator.
  The last component lists the calls of \<open>canardTxPush\<close>: the index of the media and the
  result of the call.
\<close>

fun sendTransfer_media ::
  "('m \<Rightarrow> 'w \<Rightarrow> nat) \<Rightarrow> ('md, 'w) tx_push_fn \<Rightarrow> (int \<Rightarrow> AnyError) \<Rightarrow> CanardNodeID
     \<Rightarrow> CanardMicrosecond \<Rightarrow> 'md \<Rightarrow> nat \<Rightarrow> byte list option
     \<Rightarrow> 'm Media list \<Rightarrow> 'w \<Rightarrow> AnyError option
     \<Rightarrow> 'm Media list \<times> 'w \<times> AnyError option \<times> (8 word \<times> int) list" where
  "sendTransfer_media getMtu txPush anyErrorFromCanard nid deadline_us metadata psize pdata
       [] w maybe_error = ([], w, maybe_error, [])"
| "sendTransfer_media getMtu txPush anyErrorFromCanard nid deadline_us metadata psize pdata
       (media # rest) w maybe_error =
     (let media1 = propagateMtuToTxQueue getMtu w media;
          ((result, que'), w') =
             txPush (canard_tx_queue media1) nid deadline_us metadata psize pdata w;
          maybe_error' = (if result < 0 then Some (anyErrorFromCanard result) else maybe_error);
          (rest', w'', final_error, calls) =
             sendTransfer_media getMtu txPush anyErrorFromCanard nid deadline_us metadata
               psize pdata rest w' maybe_error'
      in (media1\<lparr>canard_tx_queue := que'\<rparr> # rest', w'', final_error,
          (index media, result) # calls))"

definition sendTransfer ::
  "('m \<Rightarrow> 'w \<Rightarrow> nat) \<Rightarrow> ('md, 'w) tx_push_fn \<Rightarrow> (int \<Rightarrow> AnyError) \<Rightarrow> bool \<Rightarrow> CanardNodeID
     \<Rightarrow> TimePoint \<Rightarrow> 'md \<Rightarrow> byte list list \<Rightarrow> 'm Media list \<Rightarrow> 'w
     \<Rightarrow> AnyError option \<times> 'm Media list \<times> 'w \<times> (8 word \<times> int) list" where
  "sendTransfer getMtu txPush anyErrorFromCanard alloc_ok nid deadline metadata
       payload_fragments media_array w =
     (let (pdata, psize) = ContiguousPayload alloc_ok payload_fragments
      in if pdata = None \<and> psize > 0 then (Some MemoryError, media_array, w, [])
         else (let deadline_us = (word_of_int deadline :: CanardMicrosecond);
                   (media_array', w', maybe_error, calls) =
                      sendTransfer_media getMtu txPush anyErrorFromCanard nid deadline_us
                        metadata psize pdata media_array w None
               in (maybe_error, media_array', w', calls)))"

section \<open>The CAN transport: \<open>TransportImpl\<close>\<close>

subsection \<open>The codec instance and its subscription trees\<close>

text \<open>
  Constants of the codec (\<open>canard.h\<close>), as the comments and the tests of the transport
  give them: node ids are valid up to 127 and 255 stands for "unset"; service ids are valid
  up to 511 and subject ids up to 8191.
\<close>

definition CANARD_NODE_ID_MAX :: nat where "CANARD_NODE_ID_MAX = 127"
definition CANARD_NODE_ID_UNSET :: nat where "CANARD_NODE_ID_UNSET = 255"
definition CANARD_SERVICE_ID_MAX :: nat where "CANARD_SERVICE_ID_MAX = 511"
definition CANARD_SUBJECT_ID_MAX :: nat where "CANARD_SUBJECT_ID_MAX = 8191"

definition CANARD_DEFAULT_TRANSFER_ID_TIMEOUT_USEC :: CanardMicrosecond where
  "CANARD_DEFAULT_TRANSFER_ID_TIMEOUT_USEC = 2000000"

datatype CanardTransferKind =
  CanardTransferKindMessage | CanardTransferKindResponse | CanardTransferKindRequest

record CanardRxSubscription =
  port_id :: PortId
  extent :: nat
  transfer_id_timeout_usec :: CanardMicrosecond

text \<open>
  \<open>CanardInstance\<close>: the local node id and, per transfer kind, the tree of subscriptions
  keyed by port id, kept here as the list of its nodes in key order.
\<close>

record CanardInstance =
  node_id :: CanardNodeID
  rx_subscriptions :: "CanardTransferKind \<Rightarrow> CanardRxSubscription list"

definition canardInit :: CanardInstance where
  "canardInit = \<lparr>node_id = of_nat CANARD_NODE_ID_UNSET, rx_subscriptions = (\<lambda>kind. [])\<rparr>"

text \<open>
  Modelled from the spec: the subscription functions of the codec (section 4.5: per
  transfer kind a keyed structure mapping port id to subscription). \<open>canardRxGetSubscription\<close>
  returns 1 when the tree of the kind holds the port and 0 otherwise; \<open>canardRxUnsubscribe\<close>
  removes the node of the port and returns 1 when there was one; \<open>canardRxSubscribe\<close>
  first unsubscribes the port, then links the new node, and returns 1 when the
  subscription is new and 0 when it replaced one.
\<close>

definition canardRxGetSubscription :: "CanardInstance \<Rightarrow> CanardTransferKind \<Rightarrow> PortId \<Rightarrow> int" where
  "canardRxGetSubscription ins transfer_kind port =
     (if port \<in> set (map port_id (rx_subscriptions ins transfer_kind)) then 1 else 0)"

definition canardRxUnsubscribe ::
  "CanardInstance \<Rightarrow> CanardTransferKind \<Rightarrow> PortId \<Rightarrow> int \<times> CanardInstance" where
  "canardRxUnsubscribe ins transfer_kind port =
     (if port \<in> set (map port_id (rx_subscriptions ins transfer_kind))
      then (1, ins\<lparr>rx_subscriptions := (rx_subscriptions ins)
                       (transfer_kind := filter (\<lambda>sub. port_id sub \<noteq> port)
                                           (rx_subscriptions ins transfer_kind))\<rparr>)
      else (0, ins))"

definition canardRxSubscribe ::
  "CanardInstance \<Rightarrow> CanardTransferKind \<Rightarrow> PortId \<Rightarrow> nat \<Rightarrow> CanardMicrosecond
     \<Rightarrow> int \<times> CanardInstance" where
  "canardRxSubscribe ins transfer_kind port ext timeout_usec =
     (let (out, ins1) = canardRxUnsubscribe ins transfer_kind port;
          sub = \<lparr>port_id = port, extent = ext, transfer_id_timeout_usec = timeout_usec\<rparr>
      in (if out > 0 then 0 else 1,
          ins1\<lparr>rx_subscriptions := (rx_subscriptions ins1)
                   (transfer_kind := insort_key port_id sub (rx_subscriptions ins1 transfer_kind))\<rparr>))"

subsection \<open>The transport object\<close>

record 'm TransportImpl =
  canard_instance :: CanardInstance
  media_array :: "'m Media list"
  should_reconfigure_filters :: bool
  total_message_ports :: nat
  total_service_ports :: nat

text \<open>The constructor of \<open>TransportImpl\<close>.\<close>

definition TransportImpl_new :: "'m Media list \<Rightarrow> CanardNodeID \<Rightarrow> 'm TransportImpl" where
  "TransportImpl_new media_arr canard_node_id =
     \<lparr>canard_instance = canardInit\<lparr>node_id := canard_node_id\<rparr>,
      media_array = media_arr,
      should_reconfigure_filters = False,
      total_message_ports = 0,
      total_service_ports = 0\<rparr>"

subsection \<open>The factory: \<open>make\<close> and \<open>make_media_array\<close>\<close>

text \<open>
  The span of media pointers is a list of options, \<open>None\<close> for a null pointer. The
  factory allocates three times. \<open>reserve_ok\<close> tells whether \<open>reserve\<close> obtained the storage
  of the media array, and \<open>alloc_ok\<close> whether the transport object itself was allocated;
  the factory checks both. The third allocation is the copy of the media array: the array
  is declared \<open>const\<close> in \<open>make\<close> and the constructor takes it by value, so, once the
  transport object is allocated, the array is copied into the constructor's parameter, and
  nothing checks that copy. Its outcome is the parameter \<open>array_copy\<close>: the copy constructor
  of the array as the memory resource lets it run, which gives the array itself when its
  allocation succeeds. \<open>mtu_of\<close> is \<open>IMedia::getMtu\<close> at the time of the call. The factory
  \<open>can::detail::TransportImpl::make\<close> is \<open>can_make\<close> here, and the one of the UDP transport
  \<open>udp_make\<close>.
\<close>

definition Media_new :: "('m \<Rightarrow> nat) \<Rightarrow> nat \<Rightarrow> 'm \<Rightarrow> nat \<Rightarrow> 'm Media" where
  "Media_new mtu_of idx ifc tx_capacity =
     \<lparr>index = of_nat idx, interface = ifc,
      canard_tx_queue = \<lparr>capacity = tx_capacity, mtu_bytes = mtu_of ifc, items = []\<rparr>\<rparr>"

fun make_media_array_loop ::
  "('m \<Rightarrow> nat) \<Rightarrow> nat \<Rightarrow> nat \<Rightarrow> 'm option list \<Rightarrow> 'm Media list" where
  "make_media_array_loop mtu_of tx_capacity idx [] = []"
| "make_media_array_loop mtu_of tx_capacity idx (None # rest) =
     make_media_array_loop mtu_of tx_capacity idx rest"
| "make_media_array_loop mtu_of tx_capacity idx (Some media_interface # rest) =
     Media_new mtu_of idx media_interface tx_capacity
       # make_media_array_loop mtu_of tx_capacity (idx + 1) rest"

definition make_media_array ::
  "bool \<Rightarrow> ('m \<Rightarrow> nat) \<Rightarrow> nat \<Rightarrow> 'm option list \<Rightarrow> nat \<Rightarrow> 'm Media list" where
  "make_media_array reserve_ok mtu_of media_count media_interfaces tx_capacity =
     (let capacity_after_reserve = (if reserve_ok then media_count else 0)
      in if capacity_after_reserve \<ge> media_count
         then make_media_array_loop mtu_of tx_capacity 0 media_interfaces
         else [])"

definition can_make ::
  "bool \<Rightarrow> bool \<Rightarrow> ('m Media list \<Rightarrow> 'm Media list) \<Rightarrow> ('m \<Rightarrow> nat) \<Rightarrow> 'm option list
     \<Rightarrow> nat \<Rightarrow> NodeId option \<Rightarrow> FactoryError + 'm TransportImpl" where
  "can_make reserve_ok alloc_ok array_copy mtu_of media tx_capacity local_node_id =
     (let media_count = length (filter (\<lambda>media_ptr. media_ptr \<noteq> None) media)
      in if media_count = 0 \<or> media_count > 255 then Inl ArgumentError
         else if (case local_node_id of None \<Rightarrow> False
                  | Some v \<Rightarrow> unat v > CANARD_NODE_ID_MAX) then Inl ArgumentError
         else (let media_arr = make_media_array reserve_ok mtu_of media_count media tx_capacity
               in if length media_arr \<noteq> media_count then Inl MemoryError
                  else (let canard_node_id =
                              (case local_node_id of None \<Rightarrow> of_nat CANARD_NODE_ID_UNSET
                               | Some v \<Rightarrow> (ucast v :: CanardNodeID))
                        in if \<not> alloc_ok then Inl MemoryError
                           else Inr (TransportImpl_new (array_copy media_arr) canard_node_id))))"

subsection \<open>Node id\<close>

definition getLocalNodeId :: "'m TransportImpl \<Rightarrow> NodeId option" where
  "getLocalNodeId t =
     (if unat (node_id (canard_instance t)) > CANARD_NODE_ID_MAX then None
      else Some (ucast (node_id (canard_instance t))))"

definition setLocalNodeId :: "NodeId \<Rightarrow> 'm TransportImpl \<Rightarrow> AnyError option \<times> 'm TransportImpl" where
  "setLocalNodeId new_id t =
     (if unat new_id > CANARD_NODE_ID_MAX then (Some ArgumentError, t)
      else if unat (node_id (canard_instance t)) = unat new_id then (None, t)
      else if unat (node_id (canard_instance t)) \<noteq> CANARD_NODE_ID_UNSET then (Some ArgumentError, t)
      else (let t1 = t\<lparr>canard_instance := (canard_instance t)\<lparr>node_id := ucast new_id\<rparr>\<rparr>
            in (None, if total_service_ports t1 > 0
                      then t1\<lparr>should_reconfigure_filters := True\<rparr> else t1)))"

subsection \<open>Port counters and the filters flag\<close>

datatype FiltersUpdateCondition =
  SubjectPortAdded | SubjectPortRemoved | ServicePortAdded | ServicePortRemoved

fun triggerUpdateOfFilters :: "FiltersUpdateCondition \<Rightarrow> 'm TransportImpl \<Rightarrow> 'm TransportImpl" where
  "triggerUpdateOfFilters SubjectPortAdded t =
     t\<lparr>total_message_ports := total_message_ports t + 1, should_reconfigure_filters := True\<rparr>"
| "triggerUpdateOfFilters SubjectPortRemoved t =
     t\<lparr>total_message_ports := total_message_ports t - min 1 (total_message_ports t),
       should_reconfigure_filters := True\<rparr>"
| "triggerUpdateOfFilters ServicePortAdded t =
     t\<lparr>total_service_ports := total_service_ports t + 1, should_reconfigure_filters := True\<rparr>"
| "triggerUpdateOfFilters ServicePortRemoved t =
     t\<lparr>total_service_ports := total_service_ports t - min 1 (total_service_ports t),
       should_reconfigure_filters := True\<rparr>"

subsection \<open>RX sessions\<close>

record MessageRxParams =
  extent_bytes :: nat
  subject_id :: PortId

text \<open>\<open>RequestRxParams\<close> and \<open>ResponseRxParams\<close> have the same two fields.\<close>

record ServiceRxParams =
  svc_extent_bytes :: nat
  service_id :: PortId

text \<open>
  A live RX session: its transfer kind and the port and extent of its parameters. The
  sessions belong to the user of the transport; the state of the whole system is the
  transport together with the sessions that were made and are not yet destroyed.
\<close>

record RxSession =
  session_kind :: CanardTransferKind
  session_port :: PortId
  session_extent :: nat

record 'm System =
  transport :: "'m TransportImpl"
  rx_sessions :: "RxSession list"

definition ensureNewSessionFor :: "'m TransportImpl \<Rightarrow> CanardTransferKind \<Rightarrow> PortId \<Rightarrow> AnyError option" where
  "ensureNewSessionFor t transfer_kind port =
     (let hasSubscription = canardRxGetSubscription (canard_instance t) transfer_kind port
      in if hasSubscription > 0 then Some AlreadyExistsError else None)"

text \<open>
  \<open>SvcRxSession::make\<close> with the constructor of the session: the check of the service id,
  the allocation of the session (\<open>alloc_ok\<close>), \<open>canardRxSubscribe\<close>, and the notification of
  the transport that a service port was added. The session reports the event through its
  delegate (\<open>onSessionEvent\<close> with \<open>SvcRxLifetime\<close>); the transport handles it in
  \<open>triggerUpdateOfFilters\<close>.
\<close>

definition SvcRxSession_make ::
  "CanardTransferKind \<Rightarrow> bool \<Rightarrow> ServiceRxParams \<Rightarrow> 'm System \<Rightarrow> (AnyError + RxSession) \<times> 'm System" where
  "SvcRxSession_make kind alloc_ok params sys =
     (if unat (service_id params) > CANARD_SERVICE_ID_MAX then (Inl ArgumentError, sys)
      else if \<not> alloc_ok then (Inl MemoryError, sys)
      else (let session = \<lparr>session_kind = kind, session_port = service_id params,
                            session_extent = svc_extent_bytes params\<rparr>;
                t = transport sys;
                (result, ins1) = canardRxSubscribe (canard_instance t) kind (service_id params)
                                   (svc_extent_bytes params) CANARD_DEFAULT_TRANSFER_ID_TIMEOUT_USEC;
                t1 = triggerUpdateOfFilters ServicePortAdded (t\<lparr>canard_instance := ins1\<rparr>)
            in (Inr session, sys\<lparr>transport := t1, rx_sessions := rx_sessions sys @ [session]\<rparr>)))"

text \<open>
  Modelled from the spec: \<open>MessageRxSession::make\<close> (its header is not among the sources). A
  session registers itself into the subscription tree on creation; the transport's test
  \<open>makeMessageRxSession_invalid_subject_id\<close> expects \<open>ArgumentError\<close> for a subject id
  above the maximum; allocation failure yields \<open>MemoryError\<close>. It is the message
  counterpart of \<open>SvcRxSession::make\<close>.
\<close>

definition MessageRxSession_make ::
  "bool \<Rightarrow> MessageRxParams \<Rightarrow> 'm System \<Rightarrow> (AnyError + RxSession) \<times> 'm System" where
  "MessageRxSession_make alloc_ok params sys =
     (if unat (subject_id params) > CANARD_SUBJECT_ID_MAX then (Inl ArgumentError, sys)
      else if \<not> alloc_ok then (Inl MemoryError, sys)
      else (let session = \<lparr>session_kind = CanardTransferKindMessage,
                            session_port = subject_id params,
                            session_extent = extent_bytes params\<rparr>;
                t = transport sys;
                (result, ins1) = canardRxSubscribe (canard_instance t) CanardTransferKindMessage
                                   (subject_id params) (extent_bytes params)
                                   CANARD_DEFAULT_TRANSFER_ID_TIMEOUT_USEC;
                t1 = triggerUpdateOfFilters SubjectPortAdded (t\<lparr>canard_instance := ins1\<rparr>)
            in (Inr session, sys\<lparr>transport := t1, rx_sessions := rx_sessions sys @ [session]\<rparr>)))"

definition makeMessageRxSession ::
  "bool \<Rightarrow> MessageRxParams \<Rightarrow> 'm System \<Rightarrow> (AnyError + RxSession) \<times> 'm System" where
  "makeMessageRxSession alloc_ok params sys =
     (case ensureNewSessionFor (transport sys) CanardTransferKindMessage (subject_id params) of
        Some any_error \<Rightarrow> (Inl any_error, sys)
      | None \<Rightarrow> MessageRxSession_make alloc_ok params sys)"

definition makeRequestRxSession ::
  "bool \<Rightarrow> ServiceRxParams \<Rightarrow> 'm System \<Rightarrow> (AnyError + RxSession) \<times> 'm System" where
  "makeRequestRxSession alloc_ok params sys =
     (case ensureNewSessionFor (transport sys) CanardTransferKindRequest (service_id params) of
        Some any_error \<Rightarrow> (Inl any_error, sys)
      | None \<Rightarrow> SvcRxSession_make CanardTransferKindRequest alloc_ok params sys)"

definition makeResponseRxSession ::
  "bool \<Rightarrow> ServiceRxParams \<Rightarrow> 'm System \<Rightarrow> (AnyError + RxSession) \<times> 'm System" where
  "makeResponseRxSession alloc_ok params sys =
     (case ensureNewSessionFor (transport sys) CanardTransferKindResponse (service_id params) of
        Some any_error \<Rightarrow> (Inl any_error, sys)
      | None \<Rightarrow> SvcRxSession_make CanardTransferKindResponse alloc_ok params sys)"

text \<open>
  The destructor of an RX session: \<open>canardRxUnsubscribe\<close> for its kind and port, and the
  notification that a port was removed. \<open>destroyRxSession i\<close> destroys the \<open>i\<close>-th live
  session; there is nothing to destroy when \<open>i\<close> is not the position of a live session.
\<close>

definition RxSession_destructor :: "RxSession \<Rightarrow> 'm TransportImpl \<Rightarrow> 'm TransportImpl" where
  "RxSession_destructor session t =
     (let (result, ins1) = canardRxUnsubscribe (canard_instance t) (session_kind session)
                             (session_port session)
      in triggerUpdateOfFilters
           (if session_kind session = CanardTransferKindMessage
            then SubjectPortRemoved else ServicePortRemoved)
           (t\<lparr>canard_instance := ins1\<rparr>))"

definition destroyRxSession :: "nat \<Rightarrow> 'm System \<Rightarrow> 'm System" where
  "destroyRxSession i sys =
     (if i < length (rx_sessions sys)
      then sys\<lparr>transport := RxSession_destructor (rx_sessions sys ! i) (transport sys),
               rx_sessions := take i (rx_sessions sys) @ drop (Suc i) (rx_sessions sys)\<rparr>
      else sys)"

subsection \<open>The platform and the periodic \<open>run\<close>\<close>

record Filter =
  filter_id :: "32 word"
  filter_mask :: "32 word"

text \<open>
  Everything the transport calls and does not define is a field of the platform: the
  methods of \<open>IMedia\<close> (\<open>push\<close>, \<open>getMtu\<close>, \<open>setFilters\<close>), the codec's \<open>canardTxPush\<close>,
  \<open>canardMakeFilterForSubject\<close> and \<open>canardMakeFilterForService\<close>, and
  \<open>anyErrorFromCanard\<close>. \<open>media_receive\<close> stands for one step of \<open>runMediaReceive\<close> on one
  media (\<open>IMedia::pop\<close>, \<open>canardRxAccept\<close> and the delivery of a completed transfer to the
  delegate of its subscription): the reassembly contexts and the received transfers kept
  by the sessions are part of the world \<open>'w\<close>, and no claim is about them.
\<close>

record ('m, 'md, 'w) Platform =
  media_push :: "('m, 'w) push_fn"
  media_getMtu :: "'m \<Rightarrow> 'w \<Rightarrow> nat"
  media_receive :: "'m \<Rightarrow> 8 word \<Rightarrow> 'w \<Rightarrow> 'w"
  media_setFilters :: "'m \<Rightarrow> Filter list \<Rightarrow> 'w \<Rightarrow> MediaError option \<times> 'w"
  codec_canardTxPush :: "('md, 'w) tx_push_fn"
  codec_anyErrorFromCanard :: "int \<Rightarrow> AnyError"
  codec_canardMakeFilterForSubject :: "PortId \<Rightarrow> Filter"
  codec_canardMakeFilterForService :: "PortId \<Rightarrow> CanardNodeID \<Rightarrow> Filter"

fun runMediaReceive :: "('m \<Rightarrow> 8 word \<Rightarrow> 'w \<Rightarrow> 'w) \<Rightarrow> 'm Media list \<Rightarrow> 'w \<Rightarrow> 'w" where
  "runMediaReceive receive [] w = w"
| "runMediaReceive receive (media # rest) w =
     runMediaReceive receive rest (receive (interface media) (index media) w)"

text \<open>The loop of \<open>runMediaFilters\<close> that hands the filters to every media.\<close>

fun setFilters_media ::
  "('m \<Rightarrow> Filter list \<Rightarrow> 'w \<Rightarrow> MediaError option \<times> 'w) \<Rightarrow> Filter list \<Rightarrow> 'm Media list
     \<Rightarrow> 'w \<Rightarrow> bool \<Rightarrow> bool \<times> 'w" where
  "setFilters_media setFilters filters [] w was_error = (was_error, w)"
| "setFilters_media setFilters filters (media # rest) w was_error =
     (let (maybe_error, w') = setFilters (interface media) filters w
      in setFilters_media setFilters filters rest w'
           (if maybe_error \<noteq> None then True else was_error))"

text \<open>
  \<open>runMediaFilters\<close>; \<open>alloc_ok\<close> tells whether the temporary buffer of the filters could be
  reserved.
\<close>

definition runMediaFilters ::
  "('m, 'md, 'w) Platform \<Rightarrow> bool \<Rightarrow> 'm TransportImpl \<Rightarrow> 'w \<Rightarrow> 'm TransportImpl \<times> 'w" where
  "runMediaFilters pf alloc_ok t w =
     (if \<not> should_reconfigure_filters t then (t, w)
      else (let local_node_id = node_id (canard_instance t);
                is_anonymous = unat local_node_id > CANARD_NODE_ID_MAX;
                total_active_ports =
                  total_message_ports t + (if is_anonymous then 0 else total_service_ports t);
                subs_trees = rx_subscriptions (canard_instance t)
            in if total_active_ports > 0 \<and> \<not> alloc_ok then (t, w)
               else (let filters =
                           (if total_active_ports > 0
                            then (if total_message_ports t > 0
                                  then map (\<lambda>sub. codec_canardMakeFilterForSubject pf (port_id sub))
                                         (subs_trees CanardTransferKindMessage)
                                  else [])
                               @ (if total_service_ports t > 0 \<and> \<not> is_anonymous
                                  then map (\<lambda>sub. codec_canardMakeFilterForService pf (port_id sub)
                                                    local_node_id)
                                         (subs_trees CanardTransferKindRequest
                                            @ subs_trees CanardTransferKindResponse)
                                  else [])
                            else []);
                         (was_error, w') =
                            setFilters_media (media_setFilters pf) filters (media_array t) w False
                     in (if \<not> was_error then t\<lparr>should_reconfigure_filters := False\<rparr> else t, w'))))"

definition run ::
  "('m, 'md, 'w) Platform \<Rightarrow> bool \<Rightarrow> TimePoint \<Rightarrow> 'm TransportImpl \<Rightarrow> 'w \<Rightarrow> 'm TransportImpl \<times> 'w" where
  "run pf alloc_ok now t w =
     (let (media_arr, w1, evss) = runMediaTransmit (media_push pf) now (media_array t) w;
          t1 = t\<lparr>media_array := media_arr\<rparr>;
          w2 = runMediaReceive (media_receive pf) (media_array t1) w1
      in runMediaFilters pf alloc_ok t1 w2)"

text \<open>\<open>sendTransfer\<close> as a method of the transport object.\<close>

definition TransportImpl_sendTransfer ::
  "('m, 'md, 'w) Platform \<Rightarrow> bool \<Rightarrow> TimePoint \<Rightarrow> 'md \<Rightarrow> byte list list \<Rightarrow> 'm TransportImpl \<Rightarrow> 'w
     \<Rightarrow> AnyError option \<times> 'm TransportImpl \<times> 'w" where
  "TransportImpl_sendTransfer pf alloc_ok deadline metadata payload_fragments t w =
     (let (maybe_error, media_arr, w', calls) =
            sendTransfer (media_getMtu pf) (codec_canardTxPush pf) (codec_anyErrorFromCanard pf)
              alloc_ok (node_id (canard_instance t)) deadline metadata payload_fragments
              (media_array t) w
      in (maybe_error, t\<lparr>media_array := media_arr\<rparr>, w'))"

subsection \<open>The operations on a transport and its sessions\<close>

text \<open>
  The calls a user of the transport can make, each with the outcome of the allocation it
  may need. The factories of the TX sessions are left out: a TX session neither reads nor
  writes the state of the transport before it sends.
\<close>

datatype 'md Operation =
  OpSetLocalNodeId NodeId
  | OpMakeMessageRxSession bool MessageRxParams
  | OpMakeRequestRxSession bool ServiceRxParams
  | OpMakeResponseRxSession bool ServiceRxParams
  | OpDestroyRxSession nat
  | OpRun bool TimePoint
  | OpSendTransfer bool TimePoint 'md "byte list list"

fun step ::
  "('m, 'md, 'w) Platform \<Rightarrow> 'md Operation \<Rightarrow> 'm System \<times> 'w \<Rightarrow> 'm System \<times> 'w" where
  "step pf (OpSetLocalNodeId new_id) (sys, w) =
     (sys\<lparr>transport := snd (setLocalNodeId new_id (transport sys))\<rparr>, w)"
| "step pf (OpMakeMessageRxSession alloc_ok params) (sys, w) =
     (snd (makeMessageRxSession alloc_ok params sys), w)"
| "step pf (OpMakeRequestRxSession alloc_ok params) (sys, w) =
     (snd (makeRequestRxSession alloc_ok params sys), w)"
| "step pf (OpMakeResponseRxSession alloc_ok params) (sys, w) =
     (snd (makeResponseRxSession alloc_ok params sys), w)"
| "step pf (OpDestroyRxSession i) (sys, w) = (destroyRxSession i sys, w)"
| "step pf (OpRun alloc_ok now) (sys, w) =
     (let (t', w') = run pf alloc_ok now (transport sys) w in (sys\<lparr>transport := t'\<rparr>, w'))"
| "step pf (OpSendTransfer alloc_ok deadline metadata payload_fragments) (sys, w) =
     (let (maybe_error, t', w') =
            TransportImpl_sendTransfer pf alloc_ok deadline metadata payload_fragments
              (transport sys) w
      in (sys\<lparr>transport := t'\<rparr>, w'))"

fun exec ::
  "('m, 'md, 'w) Platform \<Rightarrow> 'md Operation list \<Rightarrow> 'm System \<times> 'w \<Rightarrow> 'm System \<times> 'w" where
  "exec pf [] s = s"
| "exec pf (op # ops) s = exec pf ops (step pf op s)"

text \<open>The system right after the factory made the transport: no session yet.\<close>

definition initial_system :: "'m TransportImpl \<Rightarrow> 'm System" where
  "initial_system t = \<lparr>transport = t, rx_sessions = []\<rparr>"

subsection \<open>The invariant of the subscription registry\<close>

text \<open>
  In every tree the port ids are pairwise different; the subscriptions of a kind are those
  of the live sessions of that kind; no two live sessions share kind and port; the two
  counters of the transport count the live message sessions and the live service sessions.
\<close>

definition system_inv :: "'m System \<Rightarrow> bool" where
  "system_inv sys =
     ((\<forall>kind. distinct (map port_id (rx_subscriptions (canard_instance (transport sys)) kind))) \<and>
      (\<forall>kind. set (map port_id (rx_subscriptions (canard_instance (transport sys)) kind)) =
               set (map session_port (filter (\<lambda>s. session_kind s = kind) (rx_sessions sys)))) \<and>
      distinct (map (\<lambda>s. (session_kind s, session_port s)) (rx_sessions sys)) \<and>
      total_message_ports (transport sys) =
        length (filter (\<lambda>s. session_kind s = CanardTransferKindMessage) (rx_sessions sys)) \<and>
      total_service_ports (transport sys) =
        length (filter (\<lambda>s. session_kind s \<noteq> CanardTransferKindMessage) (rx_sessions sys)))"

section \<open>The factory of the UDP transport\<close>

text \<open>
  \<open>udp::detail::TransportImpl::make\<close> takes no node id: a UDP transport starts with the
  node id unset. The maximum of the media count, \<open>UDPARD_NETWORK_INTERFACE_COUNT_MAX\<close>, is
  3, as the comment on the check says. This factory moves its media array into the
  transport (the array is not \<open>const\<close>, and the constructor takes an rvalue reference), so
  it allocates twice only.
\<close>

definition UDPARD_NETWORK_INTERFACE_COUNT_MAX :: nat where
  "UDPARD_NETWORK_INTERFACE_COUNT_MAX = 3"

definition UDPARD_NODE_ID_UNSET :: "16 word" where
  "UDPARD_NODE_ID_UNSET = 65535"

record 'm UdpMedia =
  udp_index :: "8 word"
  udp_interface :: 'm
  udpard_tx_queue_capacity :: nat

record 'm UdpTransportImpl =
  udp_media_array :: "'m UdpMedia list"
  udpard_node_id :: "16 word"

fun makeMediaArray_loop :: "nat \<Rightarrow> nat \<Rightarrow> 'm option list \<Rightarrow> 'm UdpMedia list" where
  "makeMediaArray_loop tx_capacity idx [] = []"
| "makeMediaArray_loop tx_capacity idx (None # rest) = makeMediaArray_loop tx_capacity idx rest"
| "makeMediaArray_loop tx_capacity idx (Some media_interface # rest) =
     \<lparr>udp_index = of_nat idx, udp_interface = media_interface,
      udpard_tx_queue_capacity = tx_capacity\<rparr>
       # makeMediaArray_loop tx_capacity (idx + 1) rest"

definition makeMediaArray :: "bool \<Rightarrow> nat \<Rightarrow> 'm option list \<Rightarrow> nat \<Rightarrow> 'm UdpMedia list" where
  "makeMediaArray reserve_ok media_count media_interfaces tx_capacity =
     (let capacity_after_reserve = (if reserve_ok then media_count else 0)
      in if capacity_after_reserve \<ge> media_count
         then makeMediaArray_loop tx_capacity 0 media_interfaces
         else [])"

definition udp_make ::
  "bool \<Rightarrow> bool \<Rightarrow> 'm option list \<Rightarrow> nat \<Rightarrow> FactoryError + 'm UdpTransportImpl" where
  "udp_make reserve_ok alloc_ok media tx_capacity =
     (let media_count = length (filter (\<lambda>media_ptr. media_ptr \<noteq> None) media)
      in if media_count = 0 \<or> media_count > UDPARD_NETWORK_INTERFACE_COUNT_MAX
         then Inl ArgumentError
         else (let media_arr = makeMediaArray reserve_ok media_count media tx_capacity
               in if length media_arr \<noteq> media_count then Inl MemoryError
                  else if \<not> alloc_ok then Inl MemoryError
                  else Inr \<lparr>udp_media_array = media_arr,
                            udpard_node_id = UDPARD_NODE_ID_UNSET\<rparr>))"

section \<open>The multiset container: \<open>MultisetBase\<close>\<close>

text \<open>
  An \<open>Item\<close> is a slot: \<open>None\<close> when its pointer is null (nothing constructed), \<open>Some x\<close>
  when it holds \<open>x\<close>. The container has the static slab \<open>static_\<close> and the linked list
  \<open>list_\<close> of dynamic chunks, each an array of \<open>NumItems\<close> slots. Predicates are taken to
  be functions of the element alone.
\<close>

datatype RemoveStrategy = RemoveOne | RemoveAll

record 'a MultisetBase =
  static_items :: "'a option list"
  chunk_list :: "'a option list list"

text \<open>The first loop of \<open>removeMatching\<close>, over the static slab; \<open>num_removed\<close> is \<open>unsigned\<close>.\<close>

fun removeMatching_static ::
  "('a \<Rightarrow> bool) \<Rightarrow> RemoveStrategy \<Rightarrow> 'a option list \<Rightarrow> 32 word \<Rightarrow> 'a option list \<times> 32 word" where
  "removeMatching_static predicate strategy [] num_removed = ([], num_removed)"
| "removeMatching_static predicate strategy (item # rest) num_removed =
     (let (item', num_removed') =
            (case item of
               None \<Rightarrow> (item, num_removed)
             | Some x \<Rightarrow> if predicate x then (None, num_removed + 1) else (item, num_removed))
      in if num_removed' > 0 \<and> strategy = RemoveOne then (item' # rest, num_removed')
         else (let (rest', n) = removeMatching_static predicate strategy rest num_removed'
               in (item' # rest', n)))"

text \<open>The inner \<open>for\<close> loop over the slots of one chunk.\<close>

fun removeMatching_chunk_items ::
  "('a \<Rightarrow> bool) \<Rightarrow> 'a option list \<Rightarrow> 32 word \<Rightarrow> 'a option list \<times> 32 word" where
  "removeMatching_chunk_items predicate [] num_removed = ([], num_removed)"
| "removeMatching_chunk_items predicate (item # rest) num_removed =
     (let (item', num_removed') =
            (case item of
               None \<Rightarrow> (item, num_removed)
             | Some x \<Rightarrow> if predicate x then (None, num_removed + 1) else (item, num_removed));
          (rest', n) = removeMatching_chunk_items predicate rest num_removed'
      in (item' # rest', n))"

text \<open>The \<open>while\<close> loop over the chunks.\<close>

fun removeMatching_chunks ::
  "('a \<Rightarrow> bool) \<Rightarrow> RemoveStrategy \<Rightarrow> 'a option list list \<Rightarrow> 32 word
     \<Rightarrow> 'a option list list \<times> 32 word" where
  "removeMatching_chunks predicate strategy [] num_removed = ([], num_removed)"
| "removeMatching_chunks predicate strategy (p # rest) num_removed =
     (if num_removed > 0 \<and> strategy = RemoveOne then (p # rest, num_removed)
      else (let (p', num_removed') = removeMatching_chunk_items predicate p num_removed;
                (rest', n) = removeMatching_chunks predicate strategy rest num_removed'
            in (p' # rest', n)))"

text \<open>\<open>compact\<close> releases every chunk that holds no constructed item.\<close>

definition compact :: "'a option list list \<Rightarrow> 'a option list list" where
  "compact chunks = filter (\<lambda>p. list_ex (\<lambda>item. item \<noteq> None) p) chunks"

definition removeMatching :: "('a \<Rightarrow> bool) \<Rightarrow> RemoveStrategy \<Rightarrow> 'a MultisetBase \<Rightarrow> 'a MultisetBase" where
  "removeMatching predicate strategy mset =
     (let (static', n1) = removeMatching_static predicate strategy (static_items mset) 0;
          (chunks', n2) = removeMatching_chunks predicate strategy (chunk_list mset) n1
      in \<lparr>static_items = static',
          chunk_list = (if n2 > 0 then compact chunks' else chunks')\<rparr>)"

definition removeAllMatching :: "('a \<Rightarrow> bool) \<Rightarrow> 'a MultisetBase \<Rightarrow> 'a MultisetBase" where
  "removeAllMatching predicate mset = removeMatching predicate RemoveAll mset"

definition removeFirstMatching :: "('a \<Rightarrow> bool) \<Rightarrow> 'a MultisetBase \<Rightarrow> 'a MultisetBase" where
  "removeFirstMatching predicate mset = removeMatching predicate RemoveOne mset"

text \<open>The elements stored, in the container's order: static slab first, then the chunks.\<close>

definition stored :: "'a MultisetBase \<Rightarrow> 'a list" where
  "stored mset =
     concat (map (\<lambda>item. case item of None \<Rightarrow> [] | Some x \<Rightarrow> [x])
               (static_items mset @ concat (chunk_list mset)))"

definition getSize :: "'a MultisetBase \<Rightarrow> nat" where
  "getSize mset = length (stored mset)"

section \<open>The response promise: \<open>ResponsePromiseBase\<close>\<close>

text \<open>
  The result of a promise is \<open>Expected<Success, Failure>\<close>: a success \<open>'s\<close>, or a failure,
  which is \<open>ResponsePromiseExpired\<close> with its deadline or, for the typed promise, an
  error \<open>'e\<close> of the deserialization. A callback is a value of \<open>'cb\<close>; calling it is
  recorded as the triple of the callback, the result and the time handed to it.
\<close>

type_synonym TransferId = "64 word"

datatype 'e Failure = ResponsePromiseExpired TimePoint | DeserializationFailure 'e

type_synonym ('s, 'e) Result = "'e Failure + 's"

type_synonym ('s, 'e, 'cb) Invocation = "'cb \<times> ('s, 'e) Result \<times> TimePoint"

text \<open>
  The fields of the promise, and those of its base class \<open>CallbackNode\<close> that the shared
  client uses: the transfer id, the deadline, and whether the node is linked into the
  indices of the client.
\<close>

record ('s, 'e, 'cb) ResponsePromiseBase =
  request_time :: TimePoint
  callback_fn :: "'cb option"
  opt_result :: "('s, 'e) Result option"
  node_transfer_id :: TransferId
  node_deadline :: TimePoint
  is_linked :: bool

definition getResult :: "('s, 'e, 'cb) ResponsePromiseBase \<Rightarrow> ('s, 'e) Result option" where
  "getResult p = opt_result p"

definition fetchResult ::
  "('s, 'e, 'cb) ResponsePromiseBase
     \<Rightarrow> ('s, 'e) Result option \<times> ('s, 'e, 'cb) ResponsePromiseBase" where
  "fetchResult p =
     (case opt_result p of
        Some result \<Rightarrow> (Some result, p\<lparr>opt_result := None\<rparr>)
      | None \<Rightarrow> (None, p))"

definition acceptResult ::
  "('s, 'e) Result \<Rightarrow> TimePoint \<Rightarrow> ('s, 'e, 'cb) ResponsePromiseBase
     \<Rightarrow> ('s, 'e, 'cb) ResponsePromiseBase \<times> ('s, 'e, 'cb) Invocation list" where
  "acceptResult result approx_now p =
     (case callback_fn p of
        Some local_callback_fn \<Rightarrow>
          (p\<lparr>callback_fn := None\<rparr>, [(local_callback_fn, result, approx_now)])
      | None \<Rightarrow> (p\<lparr>opt_result := Some result\<rparr>, []))"

text \<open>\<open>now\<close> is what \<open>shared_client_->now()\<close> returns when the callback is called at once.\<close>

definition acceptNewCallback ::
  "'cb option \<Rightarrow> TimePoint \<Rightarrow> ('s, 'e, 'cb) ResponsePromiseBase
     \<Rightarrow> ('s, 'e, 'cb) ResponsePromiseBase \<times> ('s, 'e, 'cb) Invocation list" where
  "acceptNewCallback new_callback_fn now p =
     (case new_callback_fn of
        Some f \<Rightarrow>
          (case fetchResult p of
             (Some result, p1) \<Rightarrow> (p1, [(f, result, now)])
           | (None, p1) \<Rightarrow> (p1\<lparr>callback_fn := new_callback_fn\<rparr>, []))
      | None \<Rightarrow> (p\<lparr>callback_fn := new_callback_fn\<rparr>, []))"

definition onResponseTimeout ::
  "TimePoint \<Rightarrow> TimePoint \<Rightarrow> ('s, 'e, 'cb) ResponsePromiseBase
     \<Rightarrow> ('s, 'e, 'cb) ResponsePromiseBase \<times> ('s, 'e, 'cb) Invocation list" where
  "onResponseTimeout expired_deadline approx_now p =
     acceptResult (Inl (ResponsePromiseExpired expired_deadline)) approx_now p"

text \<open>
  \<open>onResponseRxTransfer\<close>; \<open>outcome\<close> is what the deserialization of the payload gave (the
  raw promise always succeeds with the payload itself).
\<close>

definition onResponseRxTransfer ::
  "'e + 's \<Rightarrow> TimePoint \<Rightarrow> ('s, 'e, 'cb) ResponsePromiseBase
     \<Rightarrow> ('s, 'e, 'cb) ResponsePromiseBase \<times> ('s, 'e, 'cb) Invocation list" where
  "onResponseRxTransfer outcome approx_now p =
     (case outcome of
        Inl failure \<Rightarrow> acceptResult (Inl (DeserializationFailure failure)) approx_now p
      | Inr success \<Rightarrow> acceptResult (Inr success) approx_now p)"

subsection \<open>Any sequence of calls of the methods of the promise\<close>

datatype ('s, 'e, 'cb) PromiseCall =
  CallGetResult
  | CallFetchResult
  | CallAcceptResult "('s, 'e) Result" TimePoint
  | CallAcceptNewCallback "'cb option" TimePoint

fun promise_call ::
  "('s, 'e, 'cb) PromiseCall \<Rightarrow> ('s, 'e, 'cb) ResponsePromiseBase
     \<Rightarrow> ('s, 'e, 'cb) ResponsePromiseBase \<times> ('s, 'e, 'cb) Invocation list" where
  "promise_call CallGetResult p = (p, [])"
| "promise_call CallFetchResult p = (snd (fetchResult p), [])"
| "promise_call (CallAcceptResult result approx_now) p = acceptResult result approx_now p"
| "promise_call (CallAcceptNewCallback f now) p = acceptNewCallback f now p"

text \<open>The state after a sequence of calls, and the callbacks it called, in order.\<close>

fun promise_calls ::
  "('s, 'e, 'cb) PromiseCall list \<Rightarrow> ('s, 'e, 'cb) ResponsePromiseBase
     \<Rightarrow> ('s, 'e, 'cb) ResponsePromiseBase \<times> ('s, 'e, 'cb) Invocation list" where
  "promise_calls [] p = (p, [])"
| "promise_calls (c # cs) p =
     (let (p1, invoked1) = promise_call c p;
          (p2, invoked2) = promise_calls cs p1
      in (p2, invoked1 @ invoked2))"

text \<open>The callbacks a sequence of calls installs, in order.\<close>

fun installed_callbacks :: "('s, 'e, 'cb) PromiseCall list \<Rightarrow> 'cb list" where
  "installed_callbacks [] = []"
| "installed_callbacks (CallAcceptNewCallback (Some f) now # cs) = f # installed_callbacks cs"
| "installed_callbacks (c # cs) = installed_callbacks cs"

subsection \<open>The promise under its shared client\<close>

text \<open>
  Modelled from the spec: the \<open>SharedClient\<close> (\<open>client_impl.hpp\<close> is not among the
  sources). The constructor of the promise is in the sources: it builds the callback node
  from the transfer id and the response deadline, takes the request time from the client's
  \<open>now()\<close> and has the client retain the node (\<open>retainCallbackNode\<close>); what the client does
  then is section 4.8: a promise is created for a
  request with its callback node inserted under the transfer id and into the timeout list;
  on an inbound response the client looks up the transfer id and, if a node is found,
  resolves it; during \<open>run(now)\<close> the client resolves the nodes whose deadline is at most
  \<open>now\<close> with \<open>Expired\<close> of that deadline; resolution first removes the node from both
  indices; \<open>setDeadline\<close> updates the deadline and has no effect once the promise is
  resolved.
\<close>

definition ResponsePromise_new ::
  "TransferId \<Rightarrow> TimePoint \<Rightarrow> TimePoint \<Rightarrow> ('s, 'e, 'cb) ResponsePromiseBase" where
  "ResponsePromise_new tid response_deadline now =
     \<lparr>request_time = now, callback_fn = None, opt_result = None,
      node_transfer_id = tid, node_deadline = response_deadline, is_linked = True\<rparr>"

definition client_response ::
  "TransferId \<Rightarrow> 'e + 's \<Rightarrow> TimePoint \<Rightarrow> ('s, 'e, 'cb) ResponsePromiseBase
     \<Rightarrow> ('s, 'e, 'cb) ResponsePromiseBase \<times> ('s, 'e, 'cb) Invocation list" where
  "client_response tid outcome approx_now p =
     (if is_linked p \<and> node_transfer_id p = tid
      then onResponseRxTransfer outcome approx_now (p\<lparr>is_linked := False\<rparr>)
      else (p, []))"

definition client_run ::
  "TimePoint \<Rightarrow> ('s, 'e, 'cb) ResponsePromiseBase
     \<Rightarrow> ('s, 'e, 'cb) ResponsePromiseBase \<times> ('s, 'e, 'cb) Invocation list" where
  "client_run now p =
     (if is_linked p \<and> node_deadline p \<le> now
      then onResponseTimeout (node_deadline p) now (p\<lparr>is_linked := False\<rparr>)
      else (p, []))"

definition acceptNewDeadline ::
  "TimePoint \<Rightarrow> ('s, 'e, 'cb) ResponsePromiseBase \<Rightarrow> ('s, 'e, 'cb) ResponsePromiseBase" where
  "acceptNewDeadline new_deadline p = (if is_linked p then p\<lparr>node_deadline := new_deadline\<rparr> else p)"

text \<open>
  What happens to a promise over its lifetime: calls by its owner, responses that arrive,
  and runs of the client. Each event yields what the owner sees of it.
\<close>

datatype ('s, 'e, 'cb) PromiseEvent =
  GetResult
  | FetchResult
  | SetCallback "'cb option" TimePoint
  | SetDeadline TimePoint
  | ResponseReceived TransferId "'e + 's" TimePoint
  | ClientRun TimePoint

datatype ('s, 'e, 'cb) Observed =
  Got "('s, 'e) Result option"
  | Fetched "('s, 'e) Result option"
  | Called "('s, 'e, 'cb) Invocation list"

fun promise_event ::
  "('s, 'e, 'cb) PromiseEvent \<Rightarrow> ('s, 'e, 'cb) ResponsePromiseBase
     \<Rightarrow> ('s, 'e, 'cb) ResponsePromiseBase \<times> ('s, 'e, 'cb) Observed" where
  "promise_event GetResult p = (p, Got (getResult p))"
| "promise_event FetchResult p = (snd (fetchResult p), Fetched (fst (fetchResult p)))"
| "promise_event (SetCallback f now) p =
     (fst (acceptNewCallback f now p), Called (snd (acceptNewCallback f now p)))"
| "promise_event (SetDeadline new_deadline) p = (acceptNewDeadline new_deadline p, Called [])"
| "promise_event (ResponseReceived tid outcome approx_now) p =
     (fst (client_response tid outcome approx_now p),
      Called (snd (client_response tid outcome approx_now p)))"
| "promise_event (ClientRun now) p = (fst (client_run now p), Called (snd (client_run now p)))"

fun promise_events ::
  "('s, 'e, 'cb) PromiseEvent list \<Rightarrow> ('s, 'e, 'cb) ResponsePromiseBase
     \<Rightarrow> ('s, 'e, 'cb) Observed list" where
  "promise_events [] p = []"
| "promise_events (ev # evs) p =
     snd (promise_event ev p) # promise_events evs (fst (promise_event ev p))"

text \<open>An observation that delivers nothing.\<close>

fun delivers_nothing :: "('s, 'e, 'cb) Observed \<Rightarrow> bool" where
  "delivers_nothing (Got r) = (r = None)"
| "delivers_nothing (Fetched r) = (r = None)"
| "delivers_nothing (Called invoked) = (invoked = [])"

fun is_fetch_of_result :: "('s, 'e, 'cb) Observed \<Rightarrow> bool" where
  "is_fetch_of_result (Fetched (Some r)) = True"
| "is_fetch_of_result other = False"

text \<open>A result is stored only in a promise that its client has already unlinked.\<close>

definition resolved_if_stored :: "('s, 'e, 'cb) ResponsePromiseBase \<Rightarrow> bool" where
  "resolved_if_stored p = (opt_result p = None \<or> \<not> is_linked p)"

text \<open>A promise that is unlinked and stores nothing.\<close>

definition consumed :: "('s, 'e, 'cb) ResponsePromiseBase \<Rightarrow> bool" where
  "consumed p = (opt_result p = None \<and> \<not> is_linked p)"

text \<open>A promise never holds a callback and a result at the same time.\<close>

definition callback_xor_result :: "('s, 'e, 'cb) ResponsePromiseBase \<Rightarrow> bool" where
  "callback_xor_result p = (callback_fn p = None \<or> opt_result p = None)"

section \<open>Concrete platforms and inputs\<close>

text \<open>
  A frame with an empty payload, given by its CAN identifier and deadline, and the media of
  interface number \<open>i\<close> with a queue of capacity 16 holding the given items.
\<close>

definition tx_item_at :: "32 word \<Rightarrow> CanardMicrosecond \<Rightarrow> CanardTxQueueItem" where
  "tx_item_at can_id deadline =
     \<lparr>tx_deadline_usec = deadline,
      frame = \<lparr>extended_can_id = can_id, payload = []\<rparr>\<rparr>"

definition media_with :: "nat \<Rightarrow> CanardTxQueueItem list \<Rightarrow> nat Media" where
  "media_with i its =
     \<lparr>index = of_nat i, interface = i, canard_tx_queue = \<lparr>capacity = 16, mtu_bytes = 8, items = its\<rparr>\<rparr>"

text \<open>A \<open>push\<close> that is always busy on interface number 0 and accepts on every other one.\<close>

definition push_busy0 :: "(nat, unit) push_fn" where
  "push_busy0 ifc deadline can_id bytes w = (Inr (ifc \<noteq> 0), w)"

text \<open>
  A codec whose \<open>canardTxPush\<close> refuses a queue with MTU 0 (result -2) and a full queue
  (result -3) and otherwise enqueues one frame (result 1); the MTU of interface \<open>i\<close> is \<open>i\<close>.
\<close>

definition getMtu_ifc :: "nat \<Rightarrow> unit \<Rightarrow> nat" where
  "getMtu_ifc ifc w = ifc"

definition txPush_one :: "(unit, unit) tx_push_fn" where
  "txPush_one que nid deadline_us metadata psize pdata w =
     (if mtu_bytes que = 0 then ((-2, que), w)
      else if capacity que \<le> length (items que) then ((-3, que), w)
      else ((1, que\<lparr>items := items que @
                [\<lparr>tx_deadline_usec = deadline_us,
                  frame = \<lparr>extended_can_id = 0, payload = (case pdata of None \<Rightarrow> [] | Some bs \<Rightarrow> bs)\<rparr>\<rparr>]\<rparr>), w))"

definition anyError_of :: "int \<Rightarrow> AnyError" where
  "anyError_of result =
     (if result = -2 then ArgumentError else if result = -3 then MemoryError else OtherError result)"

text \<open>A platform built from the functions above; it receives nothing and accepts every filter.\<close>

definition platform0 :: "(nat, unit, unit) Platform" where
  "platform0 =
     \<lparr>media_push = push_busy0,
      media_getMtu = getMtu_ifc,
      media_receive = (\<lambda>ifc idx w. w),
      media_setFilters = (\<lambda>ifc filters w. (None, w)),
      codec_canardTxPush = txPush_one,
      codec_anyErrorFromCanard = anyError_of,
      codec_canardMakeFilterForSubject = (\<lambda>port. \<lparr>filter_id = ucast port, filter_mask = 0\<rparr>),
      codec_canardMakeFilterForService =
        (\<lambda>port nid. \<lparr>filter_id = ucast port, filter_mask = ucast nid\<rparr>)\<rparr>"

section \<open>The TX drain loop\<close>

lemma frames_empty:
  "canardTxPeek que = None \<Longrightarrow> runMediaTransmit_frames push now ifc que w = (que, w, [])"
  by (subst runMediaTransmit_frames.simps) simp

lemma frames_expired:
  "canardTxPeek que = Some item \<Longrightarrow> \<not> now < deadline_of item \<Longrightarrow>
   runMediaTransmit_frames push now ifc que w =
     (let (que', w', evs) = runMediaTransmit_frames push now ifc (canardTxPop que item) w
      in (que', w', PopFree item # evs))"
  by (subst runMediaTransmit_frames.simps) simp

lemma frames_busy:
  "canardTxPeek que = Some item \<Longrightarrow> now < deadline_of item \<Longrightarrow>
   push ifc (deadline_of item) (extended_can_id (frame item)) (payload (frame item)) w = (Inr False, w') \<Longrightarrow>
   runMediaTransmit_frames push now ifc que w = (que, w', [PushCall item (Inr False)])"
  by (subst runMediaTransmit_frames.simps) simp

lemma frames_sent:
  "canardTxPeek que = Some item \<Longrightarrow> now < deadline_of item \<Longrightarrow>
   push ifc (deadline_of item) (extended_can_id (frame item)) (payload (frame item)) w = (r, w') \<Longrightarrow>
   r \<noteq> Inr False \<Longrightarrow>
   runMediaTransmit_frames push now ifc que w =
     (let (que', w'', evs) = runMediaTransmit_frames push now ifc (canardTxPop que item) w'
      in (que', w'', PushCall item r # PopFree item # evs))"
  by (subst runMediaTransmit_frames.simps) simp

lemma frames_push_before_deadline:
  "runMediaTransmit_frames push now ifc que w = (que', w', evs) \<Longrightarrow>
   PushCall item r \<in> set evs \<Longrightarrow> now < deadline_of item"
proof (induction push now ifc que w arbitrary: que' w' evs rule: runMediaTransmit_frames.induct)
  case (1 push now ifc que w)
  show ?case
  proof (cases "canardTxPeek que")
    case None
    with "1.prems" show ?thesis by (simp add: frames_empty)
  next
    case (Some tx_item)
    show ?thesis
    proof (cases "now < deadline_of tx_item")
      case False
      obtain q1 w1 ev1 where rec: "runMediaTransmit_frames push now ifc (canardTxPop que tx_item) w = (q1, w1, ev1)"
        by (cases "runMediaTransmit_frames push now ifc (canardTxPop que tx_item) w") auto
      from "1.prems" Some False rec have "evs = PopFree tx_item # ev1"
        by (simp add: frames_expired)
      with "1.prems"(2) have "PushCall item r \<in> set ev1" by simp
      with "1.IH"(2)[OF Some refl False rec] show ?thesis .
    next
      case True
      obtain mp w1 where p: "push ifc (deadline_of tx_item) (extended_can_id (frame tx_item)) (payload (frame tx_item)) w = (mp, w1)"
        by (cases "push ifc (deadline_of tx_item) (extended_can_id (frame tx_item)) (payload (frame tx_item)) w") auto
      show ?thesis
      proof (cases "mp = Inr False")
        case busy: True
        with "1.prems" Some True p show ?thesis by (auto simp: frames_busy)
      next
        case sent: False
        obtain q1 w2 ev1 where rec: "runMediaTransmit_frames push now ifc (canardTxPop que tx_item) w1 = (q1, w2, ev1)"
          by (cases "runMediaTransmit_frames push now ifc (canardTxPop que tx_item) w1") auto
        from "1.prems" Some True p sent rec have "evs = PushCall tx_item mp # PopFree tx_item # ev1"
          by (simp add: frames_sent)
        with "1.prems"(2) have "(item = tx_item \<and> r = mp) \<or> PushCall item r \<in> set ev1" by auto
        then show ?thesis
        proof
          assume "item = tx_item \<and> r = mp" with True show ?thesis by simp
        next
          assume "PushCall item r \<in> set ev1"
          with "1.IH"(1)[OF Some refl True p[symmetric] _ sent rec] show ?thesis by simp
        qed
      qed
    qed
  qed
qed


lemma frames_outcome:
  "runMediaTransmit_frames push now ifc que w = (que', w', evs) \<Longrightarrow>
   (canardTxPeek que' = None \<and> (\<forall>it. PushCall it (Inr False) \<notin> set evs)) \<or>
   (\<exists>it pre. canardTxPeek que' = Some it \<and> evs = pre @ [PushCall it (Inr False)] \<and>
       (\<forall>it'. PushCall it' (Inr False) \<notin> set pre) \<and> now < deadline_of it)"
proof (induction push now ifc que w arbitrary: que' w' evs rule: runMediaTransmit_frames.induct)
  case (1 push now ifc que w)
  show ?case
  proof (cases "canardTxPeek que")
    case None
    with "1.prems" show ?thesis by (auto simp: frames_empty)
  next
    case (Some tx_item)
    show ?thesis
    proof (cases "now < deadline_of tx_item")
      case False
      obtain q1 w1 ev1 where rec: "runMediaTransmit_frames push now ifc (canardTxPop que tx_item) w = (q1, w1, ev1)"
        by (cases "runMediaTransmit_frames push now ifc (canardTxPop que tx_item) w") auto
      from "1.prems" Some False rec have eq: "evs = PopFree tx_item # ev1" "que' = q1"
        by (simp_all add: frames_expired)
      from "1.IH"(2)[OF Some refl False rec] show ?thesis
      proof
        assume "canardTxPeek q1 = None \<and> (\<forall>it. PushCall it (Inr False) \<notin> set ev1)"
        with eq show ?thesis by simp
      next
        assume "\<exists>it pre. canardTxPeek q1 = Some it \<and> ev1 = pre @ [PushCall it (Inr False)] \<and>
                  (\<forall>it'. PushCall it' (Inr False) \<notin> set pre) \<and> now < deadline_of it"
        then obtain it pre where h: "canardTxPeek q1 = Some it" "ev1 = pre @ [PushCall it (Inr False)]"
            "\<forall>it'. PushCall it' (Inr False) \<notin> set pre" "now < deadline_of it" by blast
        have "evs = (PopFree tx_item # pre) @ [PushCall it (Inr False)]" using eq h by simp
        moreover have "\<forall>it'. PushCall it' (Inr False) \<notin> set (PopFree tx_item # pre)" using h by simp
        ultimately show ?thesis using h eq by blast
      qed
    next
      case True
      obtain mp w1 where p: "push ifc (deadline_of tx_item) (extended_can_id (frame tx_item)) (payload (frame tx_item)) w = (mp, w1)"
        by (cases "push ifc (deadline_of tx_item) (extended_can_id (frame tx_item)) (payload (frame tx_item)) w") auto
      show ?thesis
      proof (cases "mp = Inr False")
        case busy: True
        from "1.prems" Some True p busy have "que' = que" "evs = [] @ [PushCall tx_item (Inr False)]"
          by (auto simp: frames_busy)
        with Some True show ?thesis by fastforce
      next
        case sent: False
        obtain q1 w2 ev1 where rec: "runMediaTransmit_frames push now ifc (canardTxPop que tx_item) w1 = (q1, w2, ev1)"
          by (cases "runMediaTransmit_frames push now ifc (canardTxPop que tx_item) w1") auto
        from "1.prems" Some True p sent rec have eq: "evs = PushCall tx_item mp # PopFree tx_item # ev1" "que' = q1"
          by (simp_all add: frames_sent)
        from "1.IH"(1)[OF Some refl True p[symmetric] _ sent rec] 
        have "(canardTxPeek q1 = None \<and> (\<forall>it. PushCall it (Inr False) \<notin> set ev1)) \<or>
   (\<exists>it pre. canardTxPeek q1 = Some it \<and> ev1 = pre @ [PushCall it (Inr False)] \<and>
       (\<forall>it'. PushCall it' (Inr False) \<notin> set pre) \<and> now < deadline_of it)" by simp
        then show ?thesis
        proof
          assume "canardTxPeek q1 = None \<and> (\<forall>it. PushCall it (Inr False) \<notin> set ev1)"
          with eq sent show ?thesis by auto
        next
          assume "\<exists>it pre. canardTxPeek q1 = Some it \<and> ev1 = pre @ [PushCall it (Inr False)] \<and>
                  (\<forall>it'. PushCall it' (Inr False) \<notin> set pre) \<and> now < deadline_of it"
          then obtain it pre where h: "canardTxPeek q1 = Some it" "ev1 = pre @ [PushCall it (Inr False)]"
            "\<forall>it'. PushCall it' (Inr False) \<notin> set pre" "now < deadline_of it" by blast
          have "evs = (PushCall tx_item mp # PopFree tx_item # pre) @ [PushCall it (Inr False)]" using eq h by simp
          moreover have "\<forall>it'. PushCall it' (Inr False) \<notin> set (PushCall tx_item mp # PopFree tx_item # pre)"
            using h sent by auto
          ultimately show ?thesis using h eq by blast
        qed
      qed
    qed
  qed
qed

lemma runMediaTransmit_nth:
  "runMediaTransmit push now ms w = (ms', w', evss) \<Longrightarrow>
   length ms' = length ms \<and> length evss = length ms \<and>
   (\<forall>k<length ms. \<exists>wk wk'.
       runMediaTransmit_frames push now (interface (ms ! k)) (canard_tx_queue (ms ! k)) wk =
         (canard_tx_queue (ms' ! k), wk', evss ! k) \<and>
       interface (ms' ! k) = interface (ms ! k) \<and> index (ms' ! k) = index (ms ! k))"
proof (induction ms arbitrary: w ms' w' evss)
  case Nil
  then show ?case by simp
next
  case (Cons media rest)
  obtain q1 w1 ev1 where f: "runMediaTransmit_frames push now (interface media) (canard_tx_queue media) w = (q1, w1, ev1)"
    by (cases "runMediaTransmit_frames push now (interface media) (canard_tx_queue media) w") auto
  obtain rest' w2 evr where r: "runMediaTransmit push now rest w1 = (rest', w2, evr)"
    by (cases "runMediaTransmit push now rest w1") auto
  from Cons.prems f r have eq: "ms' = media\<lparr>canard_tx_queue := q1\<rparr> # rest'" "evss = ev1 # evr"
    by simp_all
  note ih = Cons.IH[OF r]
  show ?case
  proof (intro conjI allI impI)
    show "length ms' = length (media # rest)" using eq ih by simp
    show "length evss = length (media # rest)" using eq ih by simp
  next
    fix k assume k: "k < length (media # rest)"
    show "\<exists>wk wk'. runMediaTransmit_frames push now (interface ((media # rest) ! k))
               (canard_tx_queue ((media # rest) ! k)) wk = (canard_tx_queue (ms' ! k), wk', evss ! k) \<and>
             interface (ms' ! k) = interface ((media # rest) ! k) \<and> index (ms' ! k) = index ((media # rest) ! k)"
    proof (cases k)
      case 0
      with f eq show ?thesis by auto
    next
      case (Suc j)
      with k have "j < length rest" by simp
      with ih obtain wk wk' where "runMediaTransmit_frames push now (interface (rest ! j)) (canard_tx_queue (rest ! j)) wk =
         (canard_tx_queue (rest' ! j), wk', evr ! j) \<and>
       interface (rest' ! j) = interface (rest ! j) \<and> index (rest' ! j) = index (rest ! j)" by blast
      with Suc eq show ?thesis by auto
    qed
  qed
qed


text \<open>
  Claim C1. During \<open>run(now)\<close>, for every media, \<open>push\<close> is called only for frames
  whose deadline is strictly later than \<open>now\<close>: every call of \<open>push\<close> recorded by
  \<open>runMediaTransmit\<close> is for an item with \<open>now < deadline\<close>. A head item with
  \<open>now \<ge> deadline\<close> is popped and freed without a call of \<open>push\<close>: it is the first thing
  done on its media, and, whenever the loop finds such an item on top of a queue, it
  continues as on the popped queue in the same world, with \<open>PopFree\<close> as the only event.
\<close>

theorem runMediaTransmit_drops_expired_frames:
  "(runMediaTransmit push now ms w = (ms', w', evss) \<longrightarrow>
      (\<forall>evs\<in>set evss. \<forall>item r. PushCall item r \<in> set evs \<longrightarrow> now < deadline_of item) \<and>
      (\<forall>k<length ms. \<forall>item.
          canardTxPeek (canard_tx_queue (ms ! k)) = Some item \<and> deadline_of item \<le> now
          \<longrightarrow> (\<exists>evs. evss ! k = PopFree item # evs))) \<and>
   (canardTxPeek que = Some item \<and> deadline_of item \<le> now \<longrightarrow>
      runMediaTransmit_frames push now ifc que w0 =
        (let (que', w1, evs) = runMediaTransmit_frames push now ifc (canardTxPop que item) w0
         in (que', w1, PopFree item # evs)))"
proof (intro conjI impI ballI allI)
  fix evs item r
  assume run: "runMediaTransmit push now ms w = (ms', w', evss)"
    and evs: "evs \<in> set evss" and pc: "PushCall item r \<in> set evs"
  from evs obtain k where k: "k < length evss" "evss ! k = evs" by (auto simp: in_set_conv_nth)
  from runMediaTransmit_nth[OF run] k obtain wk wk' where
    "runMediaTransmit_frames push now (interface (ms ! k)) (canard_tx_queue (ms ! k)) wk =
       (canard_tx_queue (ms' ! k), wk', evs)" by auto
  from frames_push_before_deadline[OF this pc] show "now < deadline_of item" .
next
  fix k item
  assume run: "runMediaTransmit push now ms w = (ms', w', evss)"
    and k: "k < length ms"
    and hd: "canardTxPeek (canard_tx_queue (ms ! k)) = Some item \<and> deadline_of item \<le> now"
  from runMediaTransmit_nth[OF run] k obtain wk wk' where
    f: "runMediaTransmit_frames push now (interface (ms ! k)) (canard_tx_queue (ms ! k)) wk =
       (canard_tx_queue (ms' ! k), wk', evss ! k)" by auto
  from hd have "\<not> now < deadline_of item" by simp
  from frames_expired[OF conjunct1[OF hd] this, of push "interface (ms ! k)" wk] f
  show "\<exists>evs. evss ! k = PopFree item # evs"
    by (auto simp: Let_def split: prod.splits)
next
  assume "canardTxPeek que = Some item \<and> deadline_of item \<le> now"
  then show "runMediaTransmit_frames push now ifc que w0 =
        (let (que', w1, evs) = runMediaTransmit_frames push now ifc (canardTxPop que item) w0
         in (que', w1, PopFree item # evs))"
    by (intro frames_expired) auto
qed

lemma deadline_of_tx_item_at [simp]:
  "deadline_of (tx_item_at c d) = sint d"
  by (simp add: deadline_of_def tx_item_at_def)

theorem runMediaTransmit_drops_expired_frames_witness:
  "runMediaTransmit push_busy0 10 [media_with 1 [tx_item_at 7 5, tx_item_at 8 100]] () =
     ([media_with 1 []], (),
      [[PopFree (tx_item_at 7 5), PushCall (tx_item_at 8 100) (Inr True), PopFree (tx_item_at 8 100)]])
   \<and> deadline_of (tx_item_at 7 5) \<le> 10 \<and> 10 < deadline_of (tx_item_at 8 100)"
proof -
  let ?evs = "[PopFree (tx_item_at 7 5), PushCall (tx_item_at 8 100) (Inr True), PopFree (tx_item_at 8 100)]"
  have run: "runMediaTransmit push_busy0 10 [media_with 1 [tx_item_at 7 5, tx_item_at 8 100]] () =
     ([media_with 1 []], (), [?evs])"
    by (simp add: media_with_def frames_expired frames_sent frames_empty canardTxPeek_def
          canardTxPop_def push_busy0_def)
  have "\<forall>evs\<in>set [?evs]. \<forall>item r. PushCall item r \<in> set evs \<longrightarrow> 10 < deadline_of item"
    using runMediaTransmit_drops_expired_frames[of push_busy0 10 "[media_with 1 [tx_item_at 7 5, tx_item_at 8 100]]" "()"
        "[media_with 1 []]" "()" "[?evs]"] run by blast
  then have "10 < deadline_of (tx_item_at 8 100)" by simp
  moreover have "deadline_of (tx_item_at 7 5) \<le> 10" by simp
  ultimately show ?thesis using run by simp
qed

text \<open>
  Claim C2, as stated, fails in its last part: the frame that was refused as busy is still
  on top of the queue, but the next run pushes it again only if its deadline has not
  passed by then. Here the only interface is busy at time 10 for a frame with deadline
  100; the next run, at time 200, pops and frees the frame and makes no call of \<open>push\<close>.
\<close>

theorem runMediaTransmit_busy_frame_dropped_when_expired:
  "runMediaTransmit push_busy0 10 [media_with 0 [tx_item_at 7 100]] () =
     ([media_with 0 [tx_item_at 7 100]], (), [[PushCall (tx_item_at 7 100) (Inr False)]])
   \<and> runMediaTransmit push_busy0 200 [media_with 0 [tx_item_at 7 100]] () =
     ([media_with 0 []], (), [[PopFree (tx_item_at 7 100)]])"
  by (simp add: media_with_def frames_busy frames_expired frames_empty canardTxPeek_def
        canardTxPop_def push_busy0_def)

text \<open>
  Claim C2, amended. If \<open>push\<close> reports busy for a frame of media \<open>k\<close> during \<open>run(now)\<close>,
  then that frame is still on top of the queue of media \<open>k\<close> after the run (it was not
  popped) and the busy call is the last thing done on that media in this run (no further
  frame is pushed or popped there). The next run, whatever the platform does then, starts
  that media with the very same frame: it calls \<open>push\<close> for it again if its deadline has
  not passed by then, and pops and frees it otherwise. Every media of the array is drained
  in the same run until its own queue is empty or its own \<open>push\<close> reports busy, whatever
  happened on the others.
\<close>

theorem runMediaTransmit_busy_keeps_frame:
  assumes run: "runMediaTransmit push now ms w = (ms', w', evss)"
    and k: "k < length ms"
    and busy: "PushCall item (Inr False) \<in> set (evss ! k)"
  shows "canardTxPeek (canard_tx_queue (ms' ! k)) = Some item \<and>
         (\<exists>pre. evss ! k = pre @ [PushCall item (Inr False)] \<and>
                (\<forall>it. PushCall it (Inr False) \<notin> set pre)) \<and>
         (\<forall>push2 now2 w2.
            (now2 < deadline_of item \<longrightarrow>
               (\<exists>r que2 w3 evs2.
                  runMediaTransmit_frames push2 now2 (interface (ms' ! k))
                    (canard_tx_queue (ms' ! k)) w2 = (que2, w3, PushCall item r # evs2))) \<and>
            (deadline_of item \<le> now2 \<longrightarrow>
               (\<exists>que2 w3 evs2.
                  runMediaTransmit_frames push2 now2 (interface (ms' ! k))
                    (canard_tx_queue (ms' ! k)) w2 = (que2, w3, PopFree item # evs2)))) \<and>
         (\<forall>j<length ms.
            canardTxPeek (canard_tx_queue (ms' ! j)) = None \<or>
            (\<exists>it pre. canardTxPeek (canard_tx_queue (ms' ! j)) = Some it \<and>
                evss ! j = pre @ [PushCall it (Inr False)]))"
proof -
  from runMediaTransmit_nth[OF run] k obtain wk wk' where
    f: "runMediaTransmit_frames push now (interface (ms ! k)) (canard_tx_queue (ms ! k)) wk =
       (canard_tx_queue (ms' ! k), wk', evss ! k)" by auto
  from frames_outcome[OF f] busy obtain it pre where
    h: "canardTxPeek (canard_tx_queue (ms' ! k)) = Some it"
       "evss ! k = pre @ [PushCall it (Inr False)]"
       "\<forall>it'. PushCall it' (Inr False) \<notin> set pre" "now < deadline_of it"
    by blast
  from busy h(2,3) have it: "it = item" by auto
  have next_run: "\<exists>r que2 w3 evs2.
               runMediaTransmit_frames push2 now2 (interface (ms' ! k))
                 (canard_tx_queue (ms' ! k)) w2 = (que2, w3, PushCall item r # evs2)"
    if n2: "now2 < deadline_of item" for push2 :: "('a, 'c) push_fn" and now2 w2
  proof -
    let ?ifc = "interface (ms' ! k)"
    let ?q = "canard_tx_queue (ms' ! k)"
    obtain mp w3 where p: "push2 ?ifc (deadline_of item) (extended_can_id (frame item)) (payload (frame item)) w2 = (mp, w3)"
      by (cases "push2 ?ifc (deadline_of item) (extended_can_id (frame item)) (payload (frame item)) w2") auto
    show ?thesis
    proof (cases "mp = Inr False")
      case True
      with frames_busy[OF h(1)[unfolded it] n2, of push2 ?ifc w2 w3] p show ?thesis by auto
    next
      case False
      from frames_sent[of "?q" item now2 push2 ?ifc w2 mp w3] h(1) it n2 p False show ?thesis
        by (auto simp: Let_def split: prod.splits)
    qed
  qed
  have next_drop: "\<exists>que2 w3 evs2.
               runMediaTransmit_frames push2 now2 (interface (ms' ! k))
                 (canard_tx_queue (ms' ! k)) w2 = (que2, w3, PopFree item # evs2)"
    if n2: "deadline_of item \<le> now2" for push2 :: "('a, 'c) push_fn" and now2 w2
  proof -
    from n2 have "\<not> now2 < deadline_of item" by simp
    from frames_expired[OF h(1)[unfolded it] this, of push2 "interface (ms' ! k)" w2]
    show ?thesis by (auto simp: Let_def split: prod.splits)
  qed
  have others: "canardTxPeek (canard_tx_queue (ms' ! j)) = None \<or>
            (\<exists>it pre. canardTxPeek (canard_tx_queue (ms' ! j)) = Some it \<and>
                evss ! j = pre @ [PushCall it (Inr False)])" if j: "j < length ms" for j
  proof -
    from runMediaTransmit_nth[OF run] j obtain wj wj' where
      "runMediaTransmit_frames push now (interface (ms ! j)) (canard_tx_queue (ms ! j)) wj =
         (canard_tx_queue (ms' ! j), wj', evss ! j)" by auto
    from frames_outcome[OF this] show ?thesis by blast
  qed
  from h it next_run next_drop others show ?thesis by blast
qed

theorem runMediaTransmit_busy_keeps_frame_witness:
  "runMediaTransmit push_busy0 10
      [media_with 0 [tx_item_at 7 100, tx_item_at 8 100],
       media_with 1 [tx_item_at 7 100, tx_item_at 8 100]] () =
     ([media_with 0 [tx_item_at 7 100, tx_item_at 8 100], media_with 1 []], (),
      [[PushCall (tx_item_at 7 100) (Inr False)],
       [PushCall (tx_item_at 7 100) (Inr True), PopFree (tx_item_at 7 100),
        PushCall (tx_item_at 8 100) (Inr True), PopFree (tx_item_at 8 100)]])
   \<and> canardTxPeek (canard_tx_queue (media_with 0 [tx_item_at 7 100, tx_item_at 8 100])) =
       Some (tx_item_at 7 100)
   \<and> canardTxPeek (canard_tx_queue (media_with 1 [])) = None"
proof -
  let ?ms = "[media_with 0 [tx_item_at 7 100, tx_item_at 8 100],
              media_with 1 [tx_item_at 7 100, tx_item_at 8 100]]"
  let ?ms' = "[media_with 0 [tx_item_at 7 100, tx_item_at 8 100], media_with 1 []]"
  let ?evss = "[[PushCall (tx_item_at 7 100) (Inr False)],
       [PushCall (tx_item_at 7 100) (Inr True), PopFree (tx_item_at 7 100),
        PushCall (tx_item_at 8 100) (Inr True), PopFree (tx_item_at 8 100)]]"
  have run: "runMediaTransmit push_busy0 10 ?ms () = (?ms', (), ?evss)"
    by (simp add: media_with_def frames_busy frames_sent frames_empty canardTxPeek_def
          canardTxPop_def push_busy0_def)
  have k: "0 < length ?ms" by simp
  have busy: "PushCall (tx_item_at 7 100) (Inr False) \<in> set (?evss ! 0)" by simp
  from runMediaTransmit_busy_keeps_frame[OF run k busy]
  have "canardTxPeek (canard_tx_queue (?ms' ! 0)) = Some (tx_item_at 7 100)"
    by (rule conjunct1)
  moreover have "canardTxPeek (canard_tx_queue (?ms' ! 1)) = None"
    by (simp add: canardTxPeek_def media_with_def)
  ultimately have "canardTxPeek (canard_tx_queue (media_with 0 [tx_item_at 7 100, tx_item_at 8 100])) =
       Some (tx_item_at 7 100)"
    and "canardTxPeek (canard_tx_queue (media_with 1 [])) = None"
    by simp_all
  with run show ?thesis by simp
qed

section \<open>\<open>sendTransfer\<close>\<close>

lemma sendTransfer_media_calls:
  "sendTransfer_media getMtu txPush errOf nid deadline_us metadata psize pdata ms w e0 =
     (ms', w', e, calls) \<Longrightarrow>
   map fst calls = map index ms \<and>
   e = (case filter (\<lambda>r. r < 0) (map snd calls) of
          [] \<Rightarrow> e0
        | r # rs \<Rightarrow> Some (errOf (last (r # rs))))"
proof (induction ms arbitrary: w e0 ms' w' e calls)
  case Nil
  then show ?case by simp
next
  case (Cons media rest)
  let ?m1 = "propagateMtuToTxQueue getMtu w media"
  obtain result que' w1 where
    p: "txPush (canard_tx_queue ?m1) nid deadline_us metadata psize pdata w = ((result, que'), w1)"
    by (cases "txPush (canard_tx_queue ?m1) nid deadline_us metadata psize pdata w") auto
  let ?e1 = "if result < 0 then Some (errOf result) else e0"
  obtain rest' w2 fe cs where
    r: "sendTransfer_media getMtu txPush errOf nid deadline_us metadata psize pdata rest w1 ?e1 =
          (rest', w2, fe, cs)"
    by (cases "sendTransfer_media getMtu txPush errOf nid deadline_us metadata psize pdata
                 rest w1 ?e1") auto
  from Cons.prems p r have eq: "calls = (index media, result) # cs" "e = fe"
    by (simp_all add: Let_def)
  from Cons.IH[OF r] have ih: "map fst cs = map index rest"
    "fe = (case filter (\<lambda>r. r < 0) (map snd cs) of
             [] \<Rightarrow> ?e1
           | r # rs \<Rightarrow> Some (errOf (last (r # rs))))"
    by simp_all
  show ?case using eq ih by (auto split: list.splits)
qed

text \<open>
  Claim C3, as stated, fails: \<open>sendTransfer\<close> first makes the payload contiguous, and when
  that needs a buffer (more than one non-empty fragment) and the allocation fails, it
  returns \<open>MemoryError\<close> before the loop over the media, so \<open>canardTxPush\<close> is called for
  no media at all. Here: two one-byte fragments, no memory, one media.
\<close>

theorem sendTransfer_media_not_attempted_without_memory:
  "sendTransfer getMtu_ifc txPush_one anyError_of False 42 1000 () [[1], [2]]
       [media_with 1 []] () = (Some MemoryError, [media_with 1 []], (), [])
   \<and> map index [media_with 1 []] = [1]
   \<and> map index [media_with 1 []] \<noteq> map fst ([] :: (8 word \<times> int) list)"
  by (simp add: sendTransfer_def ContiguousPayload_def media_with_def)

text \<open>
  Claim C3, amended. When the payload needs no buffer (at most one non-empty fragment) or
  the buffer is allocated, \<open>sendTransfer\<close> calls \<open>canardTxPush\<close> exactly once for every
  media of the array, in array order, whatever the earlier calls returned; its result is
  the error of the last call that failed (a negative result), and no error when no call
  failed. When the buffer is needed and cannot be allocated, it returns \<open>MemoryError\<close>,
  calls \<open>canardTxPush\<close> for no media and leaves the queues as they were.
\<close>

theorem sendTransfer_attempts_every_media:
  "(alloc_ok \<or> length (filter (\<lambda>frag. frag \<noteq> []) payload_fragments) \<le> 1 \<longrightarrow>
      sendTransfer getMtu txPush errOf alloc_ok nid deadline metadata payload_fragments ms w =
        (maybe_error, ms', w', calls) \<longrightarrow>
      map fst calls = map index ms \<and>
      maybe_error = (case filter (\<lambda>r. r < 0) (map snd calls) of
                       [] \<Rightarrow> None
                     | r # rs \<Rightarrow> Some (errOf (last (r # rs))))) \<and>
   (\<not> alloc_ok \<and> length (filter (\<lambda>frag. frag \<noteq> []) payload_fragments) > 1 \<longrightarrow>
      sendTransfer getMtu txPush errOf alloc_ok nid deadline metadata payload_fragments ms w =
        (Some MemoryError, ms, w, []))"
proof (intro conjI impI)
  assume mem: "alloc_ok \<or> length (filter (\<lambda>frag. frag \<noteq> []) payload_fragments) \<le> 1"
    and st: "sendTransfer getMtu txPush errOf alloc_ok nid deadline metadata payload_fragments ms w =
           (maybe_error, ms', w', calls)"
  obtain pdata psize where cp: "ContiguousPayload alloc_ok payload_fragments = (pdata, psize)"
    by (cases "ContiguousPayload alloc_ok payload_fragments") auto
  from mem cp have ok: "\<not> (pdata = None \<and> psize > 0)"
    by (auto simp: ContiguousPayload_def Let_def split: if_splits list.splits)
  obtain a b c d where
    r: "sendTransfer_media getMtu txPush errOf nid (word_of_int deadline) metadata psize pdata
          ms w None = (a, b, c, d)"
    by (cases "sendTransfer_media getMtu txPush errOf nid (word_of_int deadline) metadata
                 psize pdata ms w None") auto
  from st cp ok r have "maybe_error = c" "calls = d"
    by (auto simp: sendTransfer_def Let_def)
  with sendTransfer_media_calls[OF r]
  show "map fst calls = map index ms"
    and "maybe_error = (case filter (\<lambda>r. r < 0) (map snd calls) of
                       [] \<Rightarrow> None
                     | r # rs \<Rightarrow> Some (errOf (last (r # rs))))"
    by simp_all
next
  assume nomem: "\<not> alloc_ok \<and> length (filter (\<lambda>frag. frag \<noteq> []) payload_fragments) > 1"
  then obtain f1 f2 fs where ne: "filter (\<lambda>frag. frag \<noteq> []) payload_fragments = f1 # f2 # fs"
    by (cases "filter (\<lambda>frag. frag \<noteq> []) payload_fragments" rule: list.exhaust;
        cases "tl (filter (\<lambda>frag. frag \<noteq> []) payload_fragments)") auto
  then have "f1 \<in> set (filter (\<lambda>frag. frag \<noteq> []) payload_fragments)" by simp
  then have "f1 \<noteq> []" by simp
  with ne nomem show "sendTransfer getMtu txPush errOf alloc_ok nid deadline metadata payload_fragments
          ms w = (Some MemoryError, ms, w, [])"
    by (simp add: sendTransfer_def ContiguousPayload_def)
qed

theorem sendTransfer_attempts_every_media_witness:
  "fst (sendTransfer getMtu_ifc txPush_one anyError_of True 42 1000 () [[1], [2]]
           [media_with 0 [], media_with 1 [],
            (media_with 3 [])\<lparr>canard_tx_queue := \<lparr>capacity = 0, mtu_bytes = 8, items = []\<rparr>\<rparr>] ())
     = Some MemoryError
   \<and> snd (snd (snd (sendTransfer getMtu_ifc txPush_one anyError_of True 42 1000 () [[1], [2]]
           [media_with 0 [], media_with 1 [],
            (media_with 3 [])\<lparr>canard_tx_queue := \<lparr>capacity = 0, mtu_bytes = 8, items = []\<rparr>\<rparr>] ())))
     = [(0, -2), (1, 1), (3, -3)]"
proof -
  let ?ms = "[media_with 0 [], media_with 1 [],
            (media_with 3 [])\<lparr>canard_tx_queue := \<lparr>capacity = 0, mtu_bytes = 8, items = []\<rparr>\<rparr>]"
  obtain maybe_error ms' w' calls where
    st: "sendTransfer getMtu_ifc txPush_one anyError_of True 42 1000 () [[1], [2]] ?ms () =
           (maybe_error, ms', w', calls)"
    by (cases "sendTransfer getMtu_ifc txPush_one anyError_of True 42 1000 () [[1], [2]] ?ms ()")
       auto
  then have calls: "calls = [(0, -2), (1, 1), (3, -3)]"
    by (simp add: sendTransfer_def ContiguousPayload_def media_with_def propagateMtuToTxQueue_def
          getMtu_ifc_def txPush_one_def)
  have mem: "True \<or> length (filter (\<lambda>frag. frag \<noteq> []) [[1 :: byte], [2]]) \<le> 1" by simp
  from sendTransfer_attempts_every_media[THEN conjunct1, rule_format, OF mem st]
  have "maybe_error = (case filter (\<lambda>r. r < 0) (map snd calls) of
                       [] \<Rightarrow> None
                     | r # rs \<Rightarrow> Some (anyError_of (last (r # rs))))"
    by (rule conjunct2)
  with calls have "maybe_error = Some MemoryError" by (simp add: anyError_of_def)
  with st calls show ?thesis by simp
qed

section \<open>The subscription registry\<close>

lemma canardRxUnsubscribe_subs:
  "rx_subscriptions (snd (canardRxUnsubscribe ins kind port)) =
     (rx_subscriptions ins)(kind := filter (\<lambda>sub. port_id sub \<noteq> port) (rx_subscriptions ins kind))"
proof -
  have "port \<notin> set (map port_id (rx_subscriptions ins kind)) \<Longrightarrow>
        filter (\<lambda>sub. port_id sub \<noteq> port) (rx_subscriptions ins kind) = rx_subscriptions ins kind"
    by (induction "rx_subscriptions ins kind") (auto simp: filter_id_conv)
  then show ?thesis
    by (auto simp: canardRxUnsubscribe_def fun_eq_iff)
qed

lemma canardRxUnsubscribe_node_id:
  "node_id (snd (canardRxUnsubscribe ins kind port)) = node_id ins"
  by (simp add: canardRxUnsubscribe_def)

lemma canardRxSubscribe_subs:
  "rx_subscriptions (snd (canardRxSubscribe ins kind port ext tmo)) =
     (rx_subscriptions ins)
       (kind := insort_key port_id \<lparr>port_id = port, extent = ext, transfer_id_timeout_usec = tmo\<rparr>
                  (filter (\<lambda>sub. port_id sub \<noteq> port) (rx_subscriptions ins kind)))"
  using canardRxUnsubscribe_subs[of ins kind port]
  by (cases "canardRxUnsubscribe ins kind port") (auto simp: canardRxSubscribe_def Let_def fun_eq_iff)

lemma canardRxSubscribe_node_id:
  "node_id (snd (canardRxSubscribe ins kind port ext tmo)) = node_id ins"
  using canardRxUnsubscribe_node_id[of ins kind port]
  by (cases "canardRxUnsubscribe ins kind port") (auto simp: canardRxSubscribe_def Let_def)

lemma distinct_insort_new:
  "distinct (map port_id subs) \<Longrightarrow> port_id sub \<notin> set (map port_id subs) \<Longrightarrow>
   distinct (map port_id (insort_key port_id sub subs))"
  by (induction subs) (auto simp: set_insort_key)

lemma set_port_insort:
  "set (map port_id (insort_key port_id sub subs)) = insert (port_id sub) (set (map port_id subs))"
  by (simp add: set_insort_key)

lemma distinct_filter_ports:
  "distinct (map port_id subs) \<Longrightarrow> distinct (map port_id (filter P subs))"
  by (simp add: distinct_map_filter)


lemma setLocalNodeId_fields:
  "rx_subscriptions (canard_instance (snd (setLocalNodeId new_id t))) = rx_subscriptions (canard_instance t)"
  "total_message_ports (snd (setLocalNodeId new_id t)) = total_message_ports t"
  "total_service_ports (snd (setLocalNodeId new_id t)) = total_service_ports t"
  "media_array (snd (setLocalNodeId new_id t)) = media_array t"
  by (simp_all add: setLocalNodeId_def Let_def)

lemma runMediaFilters_fields:
  "canard_instance (fst (runMediaFilters pf a t w)) = canard_instance t"
  "total_message_ports (fst (runMediaFilters pf a t w)) = total_message_ports t"
  "total_service_ports (fst (runMediaFilters pf a t w)) = total_service_ports t"
  "media_array (fst (runMediaFilters pf a t w)) = media_array t"
  by (simp_all add: runMediaFilters_def Let_def split: prod.splits)

lemma run_fields:
  "canard_instance (fst (run pf a now t w)) = canard_instance t"
  "total_message_ports (fst (run pf a now t w)) = total_message_ports t"
  "total_service_ports (fst (run pf a now t w)) = total_service_ports t"
  by (simp_all add: run_def Let_def runMediaFilters_fields split: prod.splits)

lemma sendTransfer_fields:
  "canard_instance (fst (snd (TransportImpl_sendTransfer pf a d md frs t w))) = canard_instance t"
  "total_message_ports (fst (snd (TransportImpl_sendTransfer pf a d md frs t w))) = total_message_ports t"
  "total_service_ports (fst (snd (TransportImpl_sendTransfer pf a d md frs t w))) = total_service_ports t"
  "should_reconfigure_filters (fst (snd (TransportImpl_sendTransfer pf a d md frs t w))) = should_reconfigure_filters t"
  by (simp_all add: TransportImpl_sendTransfer_def Let_def split: prod.splits)

lemma system_inv_cong:
  "canard_instance (transport sys') = canard_instance (transport sys) \<Longrightarrow>
   total_message_ports (transport sys') = total_message_ports (transport sys) \<Longrightarrow>
   total_service_ports (transport sys') = total_service_ports (transport sys) \<Longrightarrow>
   rx_sessions sys' = rx_sessions sys \<Longrightarrow> system_inv sys \<Longrightarrow> system_inv sys'"
  by (simp add: system_inv_def)

lemma system_inv_setLocalNodeId:
  "system_inv sys \<Longrightarrow> system_inv (sys\<lparr>transport := snd (setLocalNodeId new_id (transport sys))\<rparr>)"
  by (simp add: system_inv_def setLocalNodeId_fields)

lemma system_inv_run:
  "system_inv sys \<Longrightarrow> run pf a now (transport sys) w = (t', w') \<Longrightarrow> system_inv (sys\<lparr>transport := t'\<rparr>)"
  using run_fields[of pf a now "transport sys" w]
  by (auto intro: system_inv_cong[of _ sys])

lemma system_inv_sendTransfer:
  "system_inv sys \<Longrightarrow> TransportImpl_sendTransfer pf a d md frs (transport sys) w = (e, t', w') \<Longrightarrow>
   system_inv (sys\<lparr>transport := t'\<rparr>)"
  using sendTransfer_fields[of pf a d md frs "transport sys" w]
  by (auto intro: system_inv_cong[of _ sys])


lemma system_inv_register:
  assumes inv: "system_inv sys"
    and absent: "port \<notin> set (map port_id (rx_subscriptions (canard_instance (transport sys)) kind))"
    and ins: "canard_instance (transport sys') =
                snd (canardRxSubscribe (canard_instance (transport sys)) kind port ext tmo)"
    and ses: "rx_sessions sys' =
                rx_sessions sys @ [\<lparr>session_kind = kind, session_port = port, session_extent = e\<rparr>]"
    and msg: "total_message_ports (transport sys') =
                total_message_ports (transport sys) + (if kind = CanardTransferKindMessage then 1 else 0)"
    and svc: "total_service_ports (transport sys') =
                total_service_ports (transport sys) + (if kind = CanardTransferKindMessage then 0 else 1)"
  shows "system_inv sys'"
proof -
  let ?subs = "rx_subscriptions (canard_instance (transport sys))"
  let ?sub = "\<lparr>port_id = port, extent = ext, transfer_id_timeout_usec = tmo\<rparr>"
  have same: "filter (\<lambda>sub. port_id sub \<noteq> port) (?subs kind) = ?subs kind"
    using absent by (auto simp: filter_id_conv)
  have subs': "rx_subscriptions (canard_instance (transport sys')) =
                 ?subs(kind := insort_key port_id ?sub (?subs kind))"
    by (simp add: ins canardRxSubscribe_subs same)
  from inv have d: "\<And>k. distinct (map port_id (?subs k))"
    and st: "\<And>k. set (map port_id (?subs k)) =
               set (map session_port (filter (\<lambda>s. session_kind s = k) (rx_sessions sys)))"
    and ds: "distinct (map (\<lambda>s. (session_kind s, session_port s)) (rx_sessions sys))"
    and cm: "total_message_ports (transport sys) =
        length (filter (\<lambda>s. session_kind s = CanardTransferKindMessage) (rx_sessions sys))"
    and cs: "total_service_ports (transport sys) =
        length (filter (\<lambda>s. session_kind s \<noteq> CanardTransferKindMessage) (rx_sessions sys))"
    by (simp_all add: system_inv_def)
  have 1: "distinct (map port_id (rx_subscriptions (canard_instance (transport sys')) k))" for k
    using d[of k] absent by (auto simp: subs' intro!: distinct_insort_new)
  have 2: "set (map port_id (rx_subscriptions (canard_instance (transport sys')) k)) =
           set (map session_port (filter (\<lambda>s. session_kind s = k) (rx_sessions sys')))" for k
    using st[of k] by (auto simp: subs' ses set_insort_key)
  have "(kind, port) \<notin> set (map (\<lambda>s. (session_kind s, session_port s)) (rx_sessions sys))"
    using absent st[of kind] by force
  then have 3: "distinct (map (\<lambda>s. (session_kind s, session_port s)) (rx_sessions sys'))"
    using ds by (simp add: ses)
  have 4: "total_message_ports (transport sys') =
        length (filter (\<lambda>s. session_kind s = CanardTransferKindMessage) (rx_sessions sys'))"
    using cm by (simp add: msg ses)
  have 5: "total_service_ports (transport sys') =
        length (filter (\<lambda>s. session_kind s \<noteq> CanardTransferKindMessage) (rx_sessions sys'))"
    using cs by (simp add: svc ses)
  from 1 2 3 4 5 show ?thesis unfolding system_inv_def by blast
qed

lemma ensureNewSessionFor_iff:
  "ensureNewSessionFor t kind port =
     (if port \<in> set (map port_id (rx_subscriptions (canard_instance t) kind))
      then Some AlreadyExistsError else None)"
  by (simp add: ensureNewSessionFor_def canardRxGetSubscription_def)

lemma system_inv_SvcRxSession_make:
  assumes "system_inv sys" "kind \<noteq> CanardTransferKindMessage"
    and "service_id params \<notin> set (map port_id (rx_subscriptions (canard_instance (transport sys)) kind))"
  shows "system_inv (snd (SvcRxSession_make kind alloc_ok params sys))"
proof (cases "unat (service_id params) > CANARD_SERVICE_ID_MAX \<or> \<not> alloc_ok")
  case True
  with assms(1) show ?thesis by (auto simp: SvcRxSession_make_def)
next
  case False
  show ?thesis
    by (rule system_inv_register[OF assms(1) assms(3),
          where ext = "svc_extent_bytes params" and tmo = CANARD_DEFAULT_TRANSFER_ID_TIMEOUT_USEC
            and e = "svc_extent_bytes params"])
       (use False assms(2) in \<open>auto simp: SvcRxSession_make_def Let_def split: prod.splits\<close>)
qed

lemma system_inv_MessageRxSession_make:
  assumes "system_inv sys"
    and "subject_id params \<notin> set (map port_id (rx_subscriptions (canard_instance (transport sys))
           CanardTransferKindMessage))"
  shows "system_inv (snd (MessageRxSession_make alloc_ok params sys))"
proof (cases "unat (subject_id params) > CANARD_SUBJECT_ID_MAX \<or> \<not> alloc_ok")
  case True
  with assms(1) show ?thesis by (auto simp: MessageRxSession_make_def)
next
  case False
  show ?thesis
    by (rule system_inv_register[OF assms(1) assms(2),
          where ext = "extent_bytes params" and tmo = CANARD_DEFAULT_TRANSFER_ID_TIMEOUT_USEC
            and e = "extent_bytes params"])
       (use False in \<open>auto simp: MessageRxSession_make_def Let_def split: prod.splits\<close>)
qed

lemma system_inv_make:
  assumes "system_inv sys"
  shows "system_inv (snd (makeMessageRxSession alloc_ok mp sys))"
    and "system_inv (snd (makeRequestRxSession alloc_ok sp sys))"
    and "system_inv (snd (makeResponseRxSession alloc_ok sp sys))"
  using assms
  by (auto simp: makeMessageRxSession_def makeRequestRxSession_def makeResponseRxSession_def
        ensureNewSessionFor_iff
      intro: system_inv_MessageRxSession_make system_inv_SvcRxSession_make)


lemma key_notin_port_notin:
  "(k, p) \<notin> set (map (\<lambda>s. (session_kind s, session_port s)) zs) \<Longrightarrow>
   p \<notin> set (map session_port (filter (\<lambda>s. session_kind s = k) zs))"
  by (induction zs) auto

lemma system_inv_destroy:
  assumes inv: "system_inv sys"
  shows "system_inv (destroyRxSession i sys)"
proof (cases "i < length (rx_sessions sys)")
  case False
  with inv show ?thesis by (simp add: destroyRxSession_def)
next
  case True
  let ?ses = "rx_sessions sys"
  let ?s = "?ses ! i"
  let ?xs = "take i ?ses"
  let ?ys = "drop (Suc i) ?ses"
  let ?subs = "rx_subscriptions (canard_instance (transport sys))"
  let ?sys' = "destroyRxSession i sys"
  let ?key = "\<lambda>s. (session_kind s, session_port s)"
  have split: "?ses = ?xs @ ?s # ?ys" using True by (rule id_take_nth_drop)
  from inv have d: "\<And>k. distinct (map port_id (?subs k))"
    and st: "\<And>k. set (map port_id (?subs k)) =
               set (map session_port (filter (\<lambda>s. session_kind s = k) ?ses))"
    and ds: "distinct (map ?key ?ses)"
    and cm: "total_message_ports (transport sys) =
        length (filter (\<lambda>s. session_kind s = CanardTransferKindMessage) ?ses)"
    and cs: "total_service_ports (transport sys) =
        length (filter (\<lambda>s. session_kind s \<noteq> CanardTransferKindMessage) ?ses)"
    by (simp_all add: system_inv_def)
  have ses': "rx_sessions ?sys' = ?xs @ ?ys" using True by (simp add: destroyRxSession_def)
  have subs': "rx_subscriptions (canard_instance (transport ?sys')) =
     ?subs(session_kind ?s := filter (\<lambda>sub. port_id sub \<noteq> session_port ?s) (?subs (session_kind ?s)))"
    using True canardRxUnsubscribe_subs[of "canard_instance (transport sys)" "session_kind ?s" "session_port ?s"]
    by (cases "canardRxUnsubscribe (canard_instance (transport sys)) (session_kind ?s) (session_port ?s)";
        cases "session_kind ?s = CanardTransferKindMessage")
       (simp_all add: destroyRxSession_def RxSession_destructor_def)
  from ds split have "distinct (map ?key (?xs @ ?s # ?ys))" by simp
  then have notin: "?key ?s \<notin> set (map ?key (?xs @ ?ys))" and ds': "distinct (map ?key (?xs @ ?ys))"
    by auto
  have 1: "distinct (map port_id (rx_subscriptions (canard_instance (transport ?sys')) k))" for k
    using d[of k] by (auto simp: subs' distinct_map_filter)
  have ports_split: "set (map session_port (filter (\<lambda>s. session_kind s = k) ?ses)) =
        set (map session_port (filter (\<lambda>s. session_kind s = k) (?xs @ ?ys))) \<union>
        (if session_kind ?s = k then {session_port ?s} else {})" for k
    by (subst split) auto
  have 2: "set (map port_id (rx_subscriptions (canard_instance (transport ?sys')) k)) =
           set (map session_port (filter (\<lambda>s. session_kind s = k) (rx_sessions ?sys')))" for k
  proof (cases "k = session_kind ?s")
    case False
    then show ?thesis using st[of k] ports_split[of k] by (auto simp: subs' ses')
  next
    case k: True
    have "session_port ?s \<notin> set (map session_port (filter (\<lambda>s. session_kind s = k) (?xs @ ?ys)))"
      using key_notin_port_notin[of k "session_port ?s" "?xs @ ?ys"] notin k by simp
    moreover have "set (map port_id (filter (\<lambda>sub. port_id sub \<noteq> session_port ?s) (?subs k))) =
                   set (map port_id (?subs k)) - {session_port ?s}" by auto
    ultimately show ?thesis using st[of k] ports_split[of k] k by (auto simp: subs' ses')
  qed
  have len_m: "length (filter (\<lambda>s. session_kind s = CanardTransferKindMessage) ?ses) =
      length (filter (\<lambda>s. session_kind s = CanardTransferKindMessage) (?xs @ ?ys)) +
      (if session_kind ?s = CanardTransferKindMessage then 1 else 0)"
    by (subst split) simp
  have len_s: "length (filter (\<lambda>s. session_kind s \<noteq> CanardTransferKindMessage) ?ses) =
      length (filter (\<lambda>s. session_kind s \<noteq> CanardTransferKindMessage) (?xs @ ?ys)) +
      (if session_kind ?s = CanardTransferKindMessage then 0 else 1)"
    by (subst split) simp
  have 4: "total_message_ports (transport ?sys') =
        length (filter (\<lambda>s. session_kind s = CanardTransferKindMessage) (rx_sessions ?sys'))"
    using True cm len_m
    by (cases "canardRxUnsubscribe (canard_instance (transport sys)) (session_kind ?s) (session_port ?s)")
       (auto simp: destroyRxSession_def RxSession_destructor_def)
  have 5: "total_service_ports (transport ?sys') =
        length (filter (\<lambda>s. session_kind s \<noteq> CanardTransferKindMessage) (rx_sessions ?sys'))"
    using True cs len_s
    by (cases "canardRxUnsubscribe (canard_instance (transport sys)) (session_kind ?s) (session_port ?s)")
       (auto simp: destroyRxSession_def RxSession_destructor_def)
  from 1 2 ds' 4 5 show ?thesis unfolding system_inv_def ses' by blast
qed

lemma system_inv_step: "system_inv (fst s) \<Longrightarrow> system_inv (fst (step pf op s))"
proof (cases s)
  case (Pair sys w)
  assume "system_inv (fst s)"
  with Pair have inv: "system_inv sys" by simp
  show ?thesis
  proof (cases op)
    case (OpRun a now)
    then show ?thesis using Pair system_inv_run[OF inv, of pf a now w]
      by (cases "run pf a now (transport sys) w") auto
  next
    case (OpSendTransfer a d md frs)
    then show ?thesis using Pair system_inv_sendTransfer[OF inv, of pf a d md frs w]
      by (cases "TransportImpl_sendTransfer pf a d md frs (transport sys) w") auto
  qed (use Pair inv in \<open>simp_all add: system_inv_setLocalNodeId system_inv_make system_inv_destroy\<close>)
qed

lemma system_inv_exec: "system_inv (fst s) \<Longrightarrow> system_inv (fst (exec pf ops s))"
  by (induction ops arbitrary: s) (simp_all add: system_inv_step)

lemma system_inv_initial:
  "system_inv (initial_system (TransportImpl_new ms nid))"
  by (simp add: system_inv_def initial_system_def TransportImpl_new_def canardInit_def)

lemma distinct_map_filter_le_1:
  "distinct (map f xs) \<Longrightarrow> length (filter (\<lambda>x. f x = v) xs) \<le> 1"
proof (induction xs)
  case Nil
  then show ?case by simp
next
  case (Cons a xs)
  show ?case
  proof (cases "f a = v")
    case True
    with Cons.prems have "v \<notin> f ` set xs" by simp
    then have "filter (\<lambda>x. f x = v) xs = []" by (auto simp: filter_empty_conv)
    with True show ?thesis by simp
  next
    case False
    with Cons show ?thesis by simp
  qed
qed

lemma distinct_key_filter_le_1:
  "distinct (map (\<lambda>s. (session_kind s, session_port s)) xs) \<Longrightarrow>
   length (filter (\<lambda>s. session_kind s = kind \<and> session_port s = port) xs) \<le> 1"
  using distinct_map_filter_le_1[of "\<lambda>s. (session_kind s, session_port s)" xs "(kind, port)"]
  by simp

text \<open>
  Claim C4. In every state reached from a freshly constructed transport by any sequence of
  operations (setting the node id, making and destroying RX sessions, \<open>run\<close>,
  \<open>sendTransfer\<close>), every tree holds at most one subscription per port, and there is at
  most one live RX session per kind and port. In any such state, \<open>makeMessageRxSession\<close>,
  \<open>makeRequestRxSession\<close> and \<open>makeResponseRxSession\<close> for a port that its tree already
  holds return \<open>AlreadyExistsError\<close> and leave the transport, its subscriptions and the
  sessions as they were.
\<close>

theorem rx_subscription_unique:
  "(\<forall>kind port.
      length (filter (\<lambda>sub. port_id sub = port)
                (rx_subscriptions (canard_instance (transport
                   (fst (exec pf ops (initial_system (TransportImpl_new ms nid), w))))) kind)) \<le> 1 \<and>
      length (filter (\<lambda>s. session_kind s = kind \<and> session_port s = port)
                (rx_sessions (fst (exec pf ops (initial_system (TransportImpl_new ms nid), w))))) \<le> 1) \<and>
   (\<forall>sys alloc_ok mp sp. sys = fst (exec pf ops (initial_system (TransportImpl_new ms nid), w)) \<longrightarrow>
      (subject_id mp \<in> set (map port_id (rx_subscriptions (canard_instance (transport sys))
                                           CanardTransferKindMessage))
         \<longrightarrow> makeMessageRxSession alloc_ok mp sys = (Inl AlreadyExistsError, sys)) \<and>
      (service_id sp \<in> set (map port_id (rx_subscriptions (canard_instance (transport sys))
                                           CanardTransferKindRequest))
         \<longrightarrow> makeRequestRxSession alloc_ok sp sys = (Inl AlreadyExistsError, sys)) \<and>
      (service_id sp \<in> set (map port_id (rx_subscriptions (canard_instance (transport sys))
                                           CanardTransferKindResponse))
         \<longrightarrow> makeResponseRxSession alloc_ok sp sys = (Inl AlreadyExistsError, sys)))"
proof -
  let ?sys = "fst (exec pf ops (initial_system (TransportImpl_new ms nid), w))"
  have "system_inv ?sys"
    by (rule system_inv_exec) (simp add: system_inv_initial)
  then have d: "\<And>kind. distinct (map port_id (rx_subscriptions (canard_instance (transport ?sys)) kind))"
    and ds: "distinct (map (\<lambda>s. (session_kind s, session_port s)) (rx_sessions ?sys))"
    by (simp_all add: system_inv_def)
  show ?thesis
    using distinct_map_filter_le_1[OF d] distinct_key_filter_le_1[OF ds]
    by (simp add: makeMessageRxSession_def makeRequestRxSession_def makeResponseRxSession_def
          ensureNewSessionFor_iff)
qed

theorem rx_subscription_unique_witness:
  "rx_sessions (fst (exec platform0
       [OpMakeMessageRxSession True \<lparr>extent_bytes = 0, subject_id = 111\<rparr>,
        OpMakeMessageRxSession True \<lparr>extent_bytes = 0, subject_id = 111\<rparr>]
       (initial_system (TransportImpl_new [media_with 1 []] 255), ()))) =
     [\<lparr>session_kind = CanardTransferKindMessage, session_port = 111, session_extent = 0\<rparr>]
   \<and> fst (makeMessageRxSession True \<lparr>extent_bytes = 0, subject_id = 111\<rparr>
        (fst (exec platform0 [OpMakeMessageRxSession True \<lparr>extent_bytes = 0, subject_id = 111\<rparr>]
           (initial_system (TransportImpl_new [media_with 1 []] 255), ())))) =
     Inl AlreadyExistsError"
proof -
  let ?p = "\<lparr>extent_bytes = 0, subject_id = 111\<rparr>"
  let ?init = "(initial_system (TransportImpl_new [media_with 1 []] 255), ())"
  let ?sys = "fst (exec platform0 [OpMakeMessageRxSession True ?p] ?init)"
  have subs: "map port_id (rx_subscriptions (canard_instance (transport ?sys))
                CanardTransferKindMessage) = [111]"
    and ses: "rx_sessions ?sys =
       [\<lparr>session_kind = CanardTransferKindMessage, session_port = 111, session_extent = 0\<rparr>]"
    by (simp_all add: initial_system_def TransportImpl_new_def canardInit_def
          makeMessageRxSession_def ensureNewSessionFor_iff MessageRxSession_make_def
          CANARD_SUBJECT_ID_MAX_def canardRxSubscribe_def canardRxUnsubscribe_def Let_def)
  then have "subject_id ?p \<in> set (map port_id (rx_subscriptions (canard_instance (transport ?sys))
                                           CanardTransferKindMessage))" by simp
  with rx_subscription_unique[of platform0 "[OpMakeMessageRxSession True ?p]" "[media_with 1 []]" 255 "()"]
  have again: "makeMessageRxSession True ?p ?sys = (Inl AlreadyExistsError, ?sys)" by blast
  then have "fst (exec platform0 [OpMakeMessageRxSession True ?p, OpMakeMessageRxSession True ?p] ?init)
             = ?sys" by simp
  with ses again show ?thesis by simp
qed

section \<open>\<open>setLocalNodeId\<close>\<close>

lemma unat_ucast_node_id:
  "unat (new_id :: NodeId) \<le> CANARD_NODE_ID_MAX \<Longrightarrow> unat (ucast new_id :: CanardNodeID) = unat new_id"
  by (simp add: unsigned_ucast_eq CANARD_NODE_ID_MAX_def take_bit_nat_eq_self)

lemma service_session_counted:
  assumes "system_inv sys" "s \<in> set (rx_sessions sys)" "session_kind s \<noteq> CanardTransferKindMessage"
  shows "total_service_ports (transport sys) > 0"
proof -
  from assms(2,3) have "s \<in> set (filter (\<lambda>s. session_kind s \<noteq> CanardTransferKindMessage) (rx_sessions sys))"
    by simp
  then have "filter (\<lambda>s. session_kind s \<noteq> CanardTransferKindMessage) (rx_sessions sys) \<noteq> []"
    by (metis empty_iff empty_set)
  with assms(1) show ?thesis by (simp add: system_inv_def)
qed

text \<open>
  Claim C5. \<open>setLocalNodeId(id)\<close> returns no error if and only if \<open>id\<close> is at most the
  maximal node id and the stored node id is unset or equal to \<open>id\<close>; after a success the
  stored node id is \<open>id\<close>. In every other case it returns \<open>ArgumentError\<close> and the
  transport, its stored node id included, is unchanged. When the stored id is unset, \<open>id\<close>
  is valid and the count of service ports is positive, the filters flag is set after the
  call; in a state reached from a fresh transport that is the case as soon as one live
  request or response RX session exists.
\<close>

theorem setLocalNodeId_result:
  "(fst (setLocalNodeId new_id t) = None \<longleftrightarrow>
      unat new_id \<le> CANARD_NODE_ID_MAX \<and>
      (unat (node_id (canard_instance t)) = CANARD_NODE_ID_UNSET \<or>
       unat (node_id (canard_instance t)) = unat new_id)) \<and>
   (fst (setLocalNodeId new_id t) = None \<longrightarrow>
      unat (node_id (canard_instance (snd (setLocalNodeId new_id t)))) = unat new_id) \<and>
   (fst (setLocalNodeId new_id t) \<noteq> None \<longrightarrow>
      setLocalNodeId new_id t = (Some ArgumentError, t)) \<and>
   (unat (node_id (canard_instance t)) = CANARD_NODE_ID_UNSET \<and>
    unat new_id \<le> CANARD_NODE_ID_MAX \<and> total_service_ports t > 0 \<longrightarrow>
      should_reconfigure_filters (snd (setLocalNodeId new_id t))) \<and>
   (\<forall>sys s. sys = fst (exec pf ops (initial_system (TransportImpl_new ms nid), w)) \<and>
      s \<in> set (rx_sessions sys) \<and> session_kind s \<noteq> CanardTransferKindMessage \<and>
      unat (node_id (canard_instance (transport sys))) = CANARD_NODE_ID_UNSET \<and>
      unat new_id \<le> CANARD_NODE_ID_MAX \<longrightarrow>
      should_reconfigure_filters (snd (setLocalNodeId new_id (transport sys))))"
proof (intro conjI allI impI)
  show "fst (setLocalNodeId new_id t) = None \<longleftrightarrow>
      unat new_id \<le> CANARD_NODE_ID_MAX \<and>
      (unat (node_id (canard_instance t)) = CANARD_NODE_ID_UNSET \<or>
       unat (node_id (canard_instance t)) = unat new_id)"
    by (auto simp: setLocalNodeId_def Let_def)
next
  assume "fst (setLocalNodeId new_id t) = None"
  then show "unat (node_id (canard_instance (snd (setLocalNodeId new_id t)))) = unat new_id"
    by (auto simp: setLocalNodeId_def Let_def unat_ucast_node_id split: if_splits)
next
  assume "fst (setLocalNodeId new_id t) \<noteq> None"
  then show "setLocalNodeId new_id t = (Some ArgumentError, t)"
    by (auto simp: setLocalNodeId_def Let_def split: if_splits)
next
  assume "unat (node_id (canard_instance t)) = CANARD_NODE_ID_UNSET \<and>
    unat new_id \<le> CANARD_NODE_ID_MAX \<and> total_service_ports t > 0"
  then show "should_reconfigure_filters (snd (setLocalNodeId new_id t))"
    by (auto simp: setLocalNodeId_def Let_def CANARD_NODE_ID_MAX_def CANARD_NODE_ID_UNSET_def)
next
  fix sys s
  assume a: "sys = fst (exec pf ops (initial_system (TransportImpl_new ms nid), w)) \<and>
      s \<in> set (rx_sessions sys) \<and> session_kind s \<noteq> CanardTransferKindMessage \<and>
      unat (node_id (canard_instance (transport sys))) = CANARD_NODE_ID_UNSET \<and>
      unat new_id \<le> CANARD_NODE_ID_MAX"
  then have "system_inv sys"
    using system_inv_exec[of "(initial_system (TransportImpl_new ms nid), w)" pf ops]
    by (simp add: system_inv_initial)
  with a have "total_service_ports (transport sys) > 0"
    using service_session_counted by blast
  with a show "should_reconfigure_filters (snd (setLocalNodeId new_id (transport sys)))"
    by (auto simp: setLocalNodeId_def Let_def CANARD_NODE_ID_MAX_def CANARD_NODE_ID_UNSET_def)
qed

theorem setLocalNodeId_result_witness:
  "\<not> should_reconfigure_filters (transport (fst (exec platform0
         [OpMakeRequestRxSession True \<lparr>svc_extent_bytes = 16, service_id = 123\<rparr>,
          OpRun True 10]
         (initial_system (TransportImpl_new [media_with 2 []] 255), ()))))
   \<and> fst (setLocalNodeId 69 (transport (fst (exec platform0
         [OpMakeRequestRxSession True \<lparr>svc_extent_bytes = 16, service_id = 123\<rparr>,
          OpRun True 10]
         (initial_system (TransportImpl_new [media_with 2 []] 255), ()))))) = None
   \<and> should_reconfigure_filters (snd (setLocalNodeId 69 (transport (fst (exec platform0
         [OpMakeRequestRxSession True \<lparr>svc_extent_bytes = 16, service_id = 123\<rparr>,
          OpRun True 10]
         (initial_system (TransportImpl_new [media_with 2 []] 255), ()))))))
   \<and> setLocalNodeId 128 (TransportImpl_new [media_with 2 []] 255) =
       (Some ArgumentError, TransportImpl_new [media_with 2 []] 255)
   \<and> setLocalNodeId 5 (TransportImpl_new [media_with 2 []] 69) =
       (Some ArgumentError, TransportImpl_new [media_with 2 []] 69)"
proof -
  let ?ops = "[OpMakeRequestRxSession True \<lparr>svc_extent_bytes = 16, service_id = 123\<rparr>, OpRun True 10]"
  let ?sys = "fst (exec platform0 ?ops (initial_system (TransportImpl_new [media_with 2 []] 255), ()))"
  let ?t0 = "TransportImpl_new [media_with 2 []] 255 :: nat TransportImpl"
  let ?t1 = "TransportImpl_new [media_with 2 []] 69 :: nat TransportImpl"
  let ?ses = "\<lparr>session_kind = CanardTransferKindRequest, session_port = 123, session_extent = 16\<rparr>"
  have made: "snd (makeRequestRxSession True \<lparr>svc_extent_bytes = 16, service_id = 123\<rparr>
                 (initial_system ?t0)) =
     \<lparr>transport = \<lparr>canard_instance =
         \<lparr>node_id = 255,
          rx_subscriptions = (\<lambda>kind. [])
            (CanardTransferKindRequest :=
               [\<lparr>port_id = 123, extent = 16,
                 transfer_id_timeout_usec = CANARD_DEFAULT_TRANSFER_ID_TIMEOUT_USEC\<rparr>])\<rparr>,
       media_array = [media_with 2 []],
       should_reconfigure_filters = True,
       total_message_ports = 0,
       total_service_ports = 1\<rparr>,
      rx_sessions = [?ses]\<rparr>"
    by (simp add: initial_system_def TransportImpl_new_def canardInit_def
          makeRequestRxSession_def ensureNewSessionFor_iff SvcRxSession_make_def
          CANARD_SERVICE_ID_MAX_def CANARD_NODE_ID_UNSET_def
          canardRxSubscribe_def canardRxUnsubscribe_def Let_def)
  have ran: "run platform0 True 10 (transport (snd (makeRequestRxSession True
                 \<lparr>svc_extent_bytes = 16, service_id = 123\<rparr> (initial_system ?t0)))) () =
     (\<lparr>canard_instance =
         \<lparr>node_id = 255,
          rx_subscriptions = (\<lambda>kind. [])
            (CanardTransferKindRequest :=
               [\<lparr>port_id = 123, extent = 16,
                 transfer_id_timeout_usec = CANARD_DEFAULT_TRANSFER_ID_TIMEOUT_USEC\<rparr>])\<rparr>,
       media_array = [media_with 2 []],
       should_reconfigure_filters = False,
       total_message_ports = 0,
       total_service_ports = 1\<rparr>, ())"
    unfolding made
    by (simp add: run_def runMediaFilters_def platform0_def media_with_def frames_empty
          canardTxPeek_def CANARD_NODE_ID_MAX_def Let_def)
  have sys_t: "unat (node_id (canard_instance (transport ?sys))) = CANARD_NODE_ID_UNSET"
    and sys_f: "\<not> should_reconfigure_filters (transport ?sys)"
    and sys_s: "?ses \<in> set (rx_sessions ?sys)"
    by (simp_all add: ran CANARD_NODE_ID_UNSET_def) (simp add: made)
  have le: "unat (69 :: NodeId) \<le> CANARD_NODE_ID_MAX" by (simp add: CANARD_NODE_ID_MAX_def)
  from setLocalNodeId_result[of 69 "transport ?sys", THEN conjunct1] sys_t le
  have ok: "fst (setLocalNodeId 69 (transport ?sys)) = None" by blast
  have kind: "session_kind ?ses \<noteq> CanardTransferKindMessage" by simp
  from setLocalNodeId_result[of 69 _ platform0 ?ops "[media_with 2 []]" 255 "()"] sys_t le sys_s kind
  have flag: "should_reconfigure_filters (snd (setLocalNodeId 69 (transport ?sys)))" by blast
  have "\<not> (unat (128 :: NodeId) \<le> CANARD_NODE_ID_MAX)" by (simp add: CANARD_NODE_ID_MAX_def)
  with setLocalNodeId_result[of 128 ?t0, THEN conjunct1]
  have e1: "fst (setLocalNodeId 128 ?t0) \<noteq> None" by blast
  have "\<not> (unat (node_id (canard_instance ?t1)) = CANARD_NODE_ID_UNSET \<or>
       unat (node_id (canard_instance ?t1)) = unat (5 :: NodeId))"
    by (simp add: CANARD_NODE_ID_UNSET_def TransportImpl_new_def)
  with setLocalNodeId_result[of 5 ?t1, THEN conjunct1]
  have e2: "fst (setLocalNodeId 5 ?t1) \<noteq> None" by blast
  from e1 have r1: "setLocalNodeId 128 ?t0 = (Some ArgumentError, ?t0)"
    by (rule setLocalNodeId_result[of 128 ?t0, THEN conjunct2, THEN conjunct2, THEN conjunct1,
          THEN mp])
  from e2 have r2: "setLocalNodeId 5 ?t1 = (Some ArgumentError, ?t1)"
    by (rule setLocalNodeId_result[of 5 ?t1, THEN conjunct2, THEN conjunct2, THEN conjunct1,
          THEN mp])
  from sys_f ok flag r1 r2 show ?thesis by (intro conjI)
qed

section \<open>The transport factories\<close>

lemma length_make_media_array_loop:
  "length (make_media_array_loop mtu_of tx_capacity idx media) =
     length (filter (\<lambda>media_ptr. media_ptr \<noteq> None) media)"
  by (induction mtu_of tx_capacity idx media rule: make_media_array_loop.induct) simp_all

lemma length_makeMediaArray_loop:
  "length (makeMediaArray_loop tx_capacity idx media) =
     length (filter (\<lambda>media_ptr. media_ptr \<noteq> None) media)"
  by (induction tx_capacity idx media rule: makeMediaArray_loop.induct) simp_all

lemma interface_make_media_array_loop:
  "map interface (make_media_array_loop mtu_of tx_capacity idx media) =
     map the (filter (\<lambda>media_ptr. media_ptr \<noteq> None) media)"
  by (induction mtu_of tx_capacity idx media rule: make_media_array_loop.induct)
     (simp_all add: Media_new_def)

lemma index_make_media_array_loop:
  "map index (make_media_array_loop mtu_of tx_capacity idx media) =
     map of_nat [idx ..< idx + length (filter (\<lambda>media_ptr. media_ptr \<noteq> None) media)]"
  by (induction mtu_of tx_capacity idx media rule: make_media_array_loop.induct)
     (simp_all add: Media_new_def upt_rec)

lemma make_media_array_loop_skips_null:
  "make_media_array_loop mtu_of tx_capacity idx (filter (\<lambda>media_ptr. media_ptr \<noteq> None) media) =
     make_media_array_loop mtu_of tx_capacity idx media"
  by (induction mtu_of tx_capacity idx media rule: make_media_array_loop.induct) simp_all

text \<open>
  What the two factories return. The CAN factory returns \<open>ArgumentError\<close> exactly when the
  number of non-null media is zero or above 255, or a node id is supplied that is above the
  maximal node id; the UDP factory, which takes no node id, exactly when the number of
  non-null media is zero or above 3. With valid arguments each returns \<open>MemoryError\<close> when
  one of the two allocations it checks fails, and a transport otherwise. The transport of
  the CAN factory holds what the copy of the media array gave.
\<close>

lemma factory_results:
  "(can_make reserve_ok alloc_ok array_copy mtu_of media tx_capacity local_node_id
        = Inl ArgumentError \<longleftrightarrow>
      length (filter (\<lambda>p. p \<noteq> None) media) = 0 \<or>
      length (filter (\<lambda>p. p \<noteq> None) media) > 255 \<or>
      (\<exists>v. local_node_id = Some v \<and> unat v > CANARD_NODE_ID_MAX)) \<and>
   (can_make reserve_ok alloc_ok array_copy mtu_of media tx_capacity local_node_id
        \<noteq> Inl ArgumentError \<longrightarrow>
      (if reserve_ok \<and> alloc_ok
       then \<exists>nid. can_make reserve_ok alloc_ok array_copy mtu_of media tx_capacity local_node_id =
              Inr (TransportImpl_new
                     (array_copy (make_media_array_loop mtu_of tx_capacity 0 media)) nid)
       else can_make reserve_ok alloc_ok array_copy mtu_of media tx_capacity local_node_id =
              Inl MemoryError)) \<and>
   (udp_make u_reserve_ok u_alloc_ok umedia u_tx_capacity = Inl ArgumentError \<longleftrightarrow>
      length (filter (\<lambda>p. p \<noteq> None) umedia) = 0 \<or>
      length (filter (\<lambda>p. p \<noteq> None) umedia) > 3) \<and>
   (udp_make u_reserve_ok u_alloc_ok umedia u_tx_capacity \<noteq> Inl ArgumentError \<longrightarrow>
      (if u_reserve_ok \<and> u_alloc_ok
       then \<exists>t. udp_make u_reserve_ok u_alloc_ok umedia u_tx_capacity = Inr t
       else udp_make u_reserve_ok u_alloc_ok umedia u_tx_capacity = Inl MemoryError))"
proof (intro conjI)
  show "can_make reserve_ok alloc_ok array_copy mtu_of media tx_capacity local_node_id
        = Inl ArgumentError \<longleftrightarrow>
      length (filter (\<lambda>p. p \<noteq> None) media) = 0 \<or>
      length (filter (\<lambda>p. p \<noteq> None) media) > 255 \<or>
      (\<exists>v. local_node_id = Some v \<and> unat v > CANARD_NODE_ID_MAX)"
    by (cases local_node_id)
       (auto simp: can_make_def Let_def make_media_array_def length_make_media_array_loop)
  show "can_make reserve_ok alloc_ok array_copy mtu_of media tx_capacity local_node_id
        \<noteq> Inl ArgumentError \<longrightarrow>
      (if reserve_ok \<and> alloc_ok
       then \<exists>nid. can_make reserve_ok alloc_ok array_copy mtu_of media tx_capacity local_node_id =
              Inr (TransportImpl_new
                     (array_copy (make_media_array_loop mtu_of tx_capacity 0 media)) nid)
       else can_make reserve_ok alloc_ok array_copy mtu_of media tx_capacity local_node_id =
              Inl MemoryError)"
    by (cases local_node_id)
       (auto simp: can_make_def Let_def make_media_array_def length_make_media_array_loop)
  show "udp_make u_reserve_ok u_alloc_ok umedia u_tx_capacity = Inl ArgumentError \<longleftrightarrow>
      length (filter (\<lambda>p. p \<noteq> None) umedia) = 0 \<or>
      length (filter (\<lambda>p. p \<noteq> None) umedia) > 3"
    by (auto simp: udp_make_def Let_def makeMediaArray_def length_makeMediaArray_loop
          UDPARD_NETWORK_INTERFACE_COUNT_MAX_def)
  show "udp_make u_reserve_ok u_alloc_ok umedia u_tx_capacity \<noteq> Inl ArgumentError \<longrightarrow>
      (if u_reserve_ok \<and> u_alloc_ok
       then \<exists>t. udp_make u_reserve_ok u_alloc_ok umedia u_tx_capacity = Inr t
       else udp_make u_reserve_ok u_alloc_ok umedia u_tx_capacity = Inl MemoryError)"
    by (auto simp: udp_make_def Let_def makeMediaArray_def length_makeMediaArray_loop
          UDPARD_NETWORK_INTERFACE_COUNT_MAX_def)
qed

text \<open>
  The factory skips the null entries of the media span: it returns on a span what it
  returns on the span with the null entries removed, and the array it builds holds exactly
  the non-null interfaces, in their order in the span, with the indices 0, 1, 2, ... in
  that order.
\<close>

lemma can_make_skips_null:
  "can_make reserve_ok alloc_ok array_copy mtu_of media tx_capacity local_node_id =
     can_make reserve_ok alloc_ok array_copy mtu_of (filter (\<lambda>p. p \<noteq> None) media)
       tx_capacity local_node_id"
proof -
  have f: "filter (\<lambda>p. p \<noteq> None) (filter (\<lambda>p. p \<noteq> None) media) =
           filter (\<lambda>p. p \<noteq> None) media" by simp
  show ?thesis
    by (simp only: can_make_def make_media_array_def Let_def f make_media_array_loop_skips_null)
qed

lemma built_media_array:
  assumes n: "length (filter (\<lambda>p. p \<noteq> None) media) \<le> 255"
  shows "map interface (make_media_array_loop mtu_of tx_capacity 0 media) =
           map the (filter (\<lambda>p. p \<noteq> None) media) \<and>
         map (\<lambda>m. unat (index m)) (make_media_array_loop mtu_of tx_capacity 0 media) =
           [0 ..< length (filter (\<lambda>p. p \<noteq> None) media)]"
proof
  let ?n = "length (filter (\<lambda>p. p \<noteq> None) media)"
  let ?arr = "make_media_array_loop mtu_of tx_capacity 0 media"
  show "map interface ?arr = map the (filter (\<lambda>p. p \<noteq> None) media)"
    by (simp add: interface_make_media_array_loop)
  have "map (\<lambda>m. unat (index m)) ?arr = map unat (map index ?arr)"
    by simp
  also have "\<dots> = map (\<lambda>i. unat (of_nat i :: 8 word)) [0 ..< ?n]"
    by (simp add: index_make_media_array_loop)
  also have "\<dots> = map (\<lambda>i. i) [0 ..< ?n]"
  proof (rule map_cong[OF refl])
    fix i assume "i \<in> set [0 ..< ?n]"
    with n have "i < 256" by simp
    then show "unat (of_nat i :: 8 word) = i"
      by (simp add: unat_of_nat)
  qed
  finally show "map (\<lambda>m. unat (index m)) ?arr = [0 ..< ?n]" by simp
qed

text \<open>
  Claim C8 says that the factory returns \<open>ArgumentError\<close> exactly for the invalid
  arguments, a transport for valid arguments and sufficient memory, and \<open>MemoryError\<close> on
  memory exhaustion. The CAN factory misses one allocation: with valid arguments (one
  media, node id 42), the storage of the media array reserved and the transport object
  allocated, the allocation of the copy of the media array fails, leaving an empty copy;
  the factory returns a transport, whose media array is empty, and not \<open>MemoryError\<close>. When
  the copy succeeds the same call returns the transport with its one media, and when the
  transport object cannot be allocated it returns \<open>MemoryError\<close>.
\<close>

theorem can_make_unchecked_copy_no_MemoryError:
  "can_make True True (\<lambda>arr. []) (\<lambda>m :: nat. 8) [Some 1] 16 (Some 42) =
     Inr (TransportImpl_new [] 42)
   \<and> can_make True True (\<lambda>arr. []) (\<lambda>m :: nat. 8) [Some 1] 16 (Some 42) \<noteq> Inl MemoryError
   \<and> can_make True True (\<lambda>arr. arr) (\<lambda>m :: nat. 8) [Some 1] 16 (Some 42) =
     Inr (TransportImpl_new [Media_new (\<lambda>m. 8) 0 1 16] 42)
   \<and> can_make True False (\<lambda>arr. arr) (\<lambda>m :: nat. 8) [Some 1] 16 (Some 42) = Inl MemoryError"
  by (simp add: can_make_def make_media_array_def CANARD_NODE_ID_MAX_def Let_def)


section \<open>\<open>removeFirstMatching\<close>\<close>

text \<open>
  Claim C9 says that \<open>removeFirstMatching\<close> removes at most one element. The loop over
  the static slab stops right after the first removal, but the loop over a dynamic chunk
  has no such exit: the strategy is only looked at between chunks. With an empty static
  slab and one chunk holding 1, 2 and 3, removing the first element that is at least 2
  removes both 2 and 3; in the static slab the same call removes 2 only.
\<close>

theorem removeFirstMatching_removes_whole_chunk_matches:
  "removeFirstMatching (\<lambda>x :: nat. 2 \<le> x)
      \<lparr>static_items = [], chunk_list = [[Some 1, Some 2, Some 3]]\<rparr> =
     \<lparr>static_items = [], chunk_list = [[Some 1, None, None]]\<rparr>
   \<and> getSize (removeFirstMatching (\<lambda>x :: nat. 2 \<le> x)
        \<lparr>static_items = [], chunk_list = [[Some 1, Some 2, Some 3]]\<rparr>) = 1
   \<and> getSize \<lparr>static_items = [], chunk_list = [[Some (1 :: nat), Some 2, Some 3]]\<rparr> = 3
   \<and> removeFirstMatching (\<lambda>x :: nat. 2 \<le> x)
        \<lparr>static_items = [Some 1, Some 2, Some 3], chunk_list = []\<rparr> =
       \<lparr>static_items = [Some 1, None, Some 3], chunk_list = []\<rparr>"
  by (simp add: removeFirstMatching_def removeMatching_def compact_def getSize_def stored_def)

section \<open>The response promise\<close>

subsection \<open>Polling\<close>

lemma resolved_if_stored_event:
  "resolved_if_stored p \<Longrightarrow> resolved_if_stored (fst (promise_event ev p))"
  by (cases ev)
     (auto simp: resolved_if_stored_def fetchResult_def acceptNewCallback_def acceptNewDeadline_def
        client_response_def client_run_def onResponseRxTransfer_def onResponseTimeout_def
        acceptResult_def
       split: option.splits sum.splits)

lemma fetch_consumes:
  "resolved_if_stored p \<Longrightarrow> is_fetch_of_result (snd (promise_event ev p)) \<Longrightarrow>
   consumed (fst (promise_event ev p))"
  by (cases ev)
     (auto simp: resolved_if_stored_def consumed_def fetchResult_def split: option.splits)

lemma consumed_event:
  "consumed p \<Longrightarrow>
   consumed (fst (promise_event ev p)) \<and> delivers_nothing (snd (promise_event ev p))"
  by (cases ev)
     (auto simp: consumed_def getResult_def fetchResult_def acceptNewCallback_def
        acceptNewDeadline_def client_response_def client_run_def
       split: option.splits)

lemma consumed_events:
  "consumed p \<Longrightarrow> ob \<in> set (promise_events evs p) \<Longrightarrow> delivers_nothing ob"
proof (induction evs arbitrary: p)
  case Nil
  then show ?case by simp
next
  case (Cons ev evs)
  from consumed_event[OF Cons.prems(1), of ev]
  have c: "consumed (fst (promise_event ev p))" and d: "delivers_nothing (snd (promise_event ev p))"
    by simp_all
  from Cons.prems(2) have "ob = snd (promise_event ev p) \<or>
      ob \<in> set (promise_events evs (fst (promise_event ev p)))" by simp
  then show ?case using d Cons.IH[OF c] by blast
qed

lemma after_fetch_nothing:
  "resolved_if_stored p \<Longrightarrow> i < j \<Longrightarrow> j < length (promise_events evs p) \<Longrightarrow>
   is_fetch_of_result (promise_events evs p ! i) \<Longrightarrow>
   delivers_nothing (promise_events evs p ! j)"
proof (induction evs arbitrary: p i j)
  case Nil
  then show ?case by simp
next
  case (Cons ev evs)
  let ?p1 = "fst (promise_event ev p)"
  from Cons.prems(2) obtain j' where j: "j = Suc j'" by (cases j) auto
  show ?case
  proof (cases i)
    case 0
    with Cons.prems(4) have "is_fetch_of_result (snd (promise_event ev p))" by simp
    from fetch_consumes[OF Cons.prems(1) this] have "consumed ?p1" .
    moreover from Cons.prems(3) j have "promise_events evs ?p1 ! j' \<in> set (promise_events evs ?p1)"
      by simp
    ultimately show ?thesis using consumed_events j by fastforce
  next
    case (Suc i')
    with Cons.prems j have "i' < j'" "j' < length (promise_events evs ?p1)"
      "is_fetch_of_result (promise_events evs ?p1 ! i')" by simp_all
    from Cons.IH[OF resolved_if_stored_event[OF Cons.prems(1)] this] j show ?thesis by simp
  qed
qed

lemma at_most_one_fetch:
  "resolved_if_stored p \<Longrightarrow> length (filter is_fetch_of_result (promise_events evs p)) \<le> 1"
proof (induction evs arbitrary: p)
  case Nil
  then show ?case by simp
next
  case (Cons ev evs)
  let ?p1 = "fst (promise_event ev p)"
  show ?case
  proof (cases "is_fetch_of_result (snd (promise_event ev p))")
    case True
    from fetch_consumes[OF Cons.prems this] have c: "consumed ?p1" .
    have "filter is_fetch_of_result (promise_events evs ?p1) = []"
    proof -
      have "\<not> is_fetch_of_result ob" if "ob \<in> set (promise_events evs ?p1)" for ob
        using consumed_events[OF c that] by (cases ob) auto
      then show ?thesis by (simp add: filter_empty_conv)
    qed
    with True show ?thesis by simp
  next
    case False
    with Cons.IH[OF resolved_if_stored_event[OF Cons.prems]] show ?thesis by simp
  qed
qed

text \<open>
  Claim C6. Over the lifetime of a promise (any sequence of \<open>getResult\<close>, \<open>fetchResult\<close>,
  \<open>setCallback\<close> and \<open>setDeadline\<close> calls, arriving responses and runs of its client, from
  its construction on) at most one \<open>fetchResult\<close> returns a result. After a \<open>fetchResult\<close>
  that returned a result, every later \<open>getResult\<close> and \<open>fetchResult\<close> returns nothing, and
  the promise is not resolved again: no later response or timeout stores a result or calls
  a callback.
\<close>

theorem fetchResult_at_most_once:
  "length (filter is_fetch_of_result
             (promise_events evs (ResponsePromise_new tid response_deadline now))) \<le> 1 \<and>
   (\<forall>i j. i < j \<and> j < length (promise_events evs (ResponsePromise_new tid response_deadline now)) \<and>
          is_fetch_of_result (promise_events evs (ResponsePromise_new tid response_deadline now) ! i)
      \<longrightarrow> delivers_nothing (promise_events evs (ResponsePromise_new tid response_deadline now) ! j))"
proof -
  have "resolved_if_stored (ResponsePromise_new tid response_deadline now :: ('a, 'b, 'c) ResponsePromiseBase)"
    by (simp add: resolved_if_stored_def ResponsePromise_new_def)
  then show ?thesis
    using at_most_one_fetch after_fetch_nothing by blast
qed

theorem fetchResult_at_most_once_witness:
  "promise_events
      [ClientRun 1000, FetchResult, FetchResult, GetResult, ResponseReceived 7 (Inr 42) 1001,
       FetchResult]
      (ResponsePromise_new 7 1000 0 :: (nat, unit, nat) ResponsePromiseBase) =
     [Called [], Fetched (Some (Inl (ResponsePromiseExpired 1000))), Fetched None, Got None,
      Called [], Fetched None]
   \<and> delivers_nothing (promise_events
      [ClientRun 1000, FetchResult, FetchResult, GetResult, ResponseReceived 7 (Inr 42) 1001,
       FetchResult]
      (ResponsePromise_new 7 1000 0 :: (nat, unit, nat) ResponsePromiseBase) ! 5)"
proof -
  let ?evs = "[ClientRun 1000, FetchResult, FetchResult, GetResult, ResponseReceived 7 (Inr 42) 1001,
       FetchResult] :: (nat, unit, nat) PromiseEvent list"
  let ?p = "ResponsePromise_new 7 1000 0 :: (nat, unit, nat) ResponsePromiseBase"
  have run: "promise_events ?evs ?p =
     [Called [], Fetched (Some (Inl (ResponsePromiseExpired 1000))), Fetched None, Got None,
      Called [], Fetched None]"
    by (simp add: ResponsePromise_new_def client_run_def client_response_def onResponseTimeout_def
          acceptResult_def fetchResult_def getResult_def)
  have "(1::nat) < 5 \<and> 5 < length (promise_events ?evs ?p) \<and>
        is_fetch_of_result (promise_events ?evs ?p ! 1)"
    unfolding run by simp
  with fetchResult_at_most_once[of ?evs 7 1000 0, THEN conjunct2]
  have "delivers_nothing (promise_events ?evs ?p ! 5)" by blast
  with run show ?thesis by (intro conjI)
qed

subsection \<open>Callbacks\<close>

lemma callback_xor_result_call:
  "callback_xor_result p \<Longrightarrow> callback_xor_result (fst (promise_call c p))"
  by (cases c)
     (auto simp: callback_xor_result_def fetchResult_def acceptResult_def acceptNewCallback_def
       split: option.splits)

lemma promise_calls_Cons:
  "promise_calls (c # cs) p =
     (fst (promise_calls cs (fst (promise_call c p))),
      snd (promise_call c p) @ snd (promise_calls cs (fst (promise_call c p))))"
  by (simp add: split_beta)

lemma callback_xor_result_calls:
  "callback_xor_result p \<Longrightarrow> callback_xor_result (fst (promise_calls cs p))"
proof (induction cs arbitrary: p)
  case Nil
  then show ?case by simp
next
  case (Cons c cs)
  from Cons.IH[OF callback_xor_result_call[OF Cons.prems, of c]] show ?case
    by (simp only: promise_calls_Cons fst_conv)
qed

lemma invoked_call_count:
  "count_list (map fst (snd (promise_call c p))) h +
     (if callback_fn (fst (promise_call c p)) = Some h then 1 else 0) \<le>
   count_list (installed_callbacks [c]) h + (if callback_fn p = Some h then 1 else 0)"
proof (cases c)
  case (CallAcceptNewCallback f now)
  then show ?thesis
    by (cases f; cases "opt_result p")
       (auto simp: acceptNewCallback_def fetchResult_def)
qed (auto simp: fetchResult_def acceptResult_def split: option.splits)

lemma installed_callbacks_Cons:
  "count_list (installed_callbacks (c # cs)) h =
     count_list (installed_callbacks [c]) h + count_list (installed_callbacks cs) h"
  by (cases "(c # cs)" rule: installed_callbacks.cases) auto

lemma invoked_calls_count:
  "count_list (map fst (snd (promise_calls cs p))) h +
     (if callback_fn (fst (promise_calls cs p)) = Some h then 1 else 0) \<le>
   count_list (installed_callbacks cs) h + (if callback_fn p = Some h then 1 else 0)"
proof (induction cs arbitrary: p)
  case Nil
  then show ?case by simp
next
  case (Cons c cs)
  let ?p1 = "fst (promise_call c p)"
  have split: "snd (promise_calls (c # cs) p) = snd (promise_call c p) @ snd (promise_calls cs ?p1)"
    "fst (promise_calls (c # cs) p) = fst (promise_calls cs ?p1)"
    by (simp_all only: promise_calls_Cons fst_conv snd_conv)
  have "count_list (map fst (snd (promise_calls (c # cs) p))) h +
          (if callback_fn (fst (promise_calls (c # cs) p)) = Some h then 1 else 0) =
        count_list (map fst (snd (promise_call c p))) h +
          (count_list (map fst (snd (promise_calls cs ?p1))) h +
           (if callback_fn (fst (promise_calls cs ?p1)) = Some h then 1 else 0))"
    by (simp only: split map_append count_list_append add.assoc)
  also have "\<dots> \<le> count_list (map fst (snd (promise_call c p))) h +
          (count_list (installed_callbacks cs) h + (if callback_fn ?p1 = Some h then 1 else 0))"
    using Cons.IH[of ?p1] by simp
  also have "\<dots> \<le> count_list (installed_callbacks [c]) h + (if callback_fn p = Some h then 1 else 0)
                   + count_list (installed_callbacks cs) h"
    using invoked_call_count[of c p h] by simp
  finally show ?case by (simp add: installed_callbacks_Cons[of c cs])
qed

text \<open>
  Claim C7. (a) \<open>setCallback\<close> with a function on a promise that stores a result calls the
  function at once with that result and empties the result slot; the function is not
  stored (the callback slot is as before, which is empty in every state a promise can
  reach). (b) A result that arrives while a callback is installed is handed to that
  callback, called once; the callback slot is cleared and the result is not stored.
  Consequently, over any sequence of calls from the construction of the promise on, a
  callback is never called more often than it was installed, and the promise never holds
  a callback and a result together.
\<close>

theorem callback_fires_at_most_once:
  "(opt_result (p :: ('s, 'e, 'cb) ResponsePromiseBase) = Some r \<longrightarrow>
      acceptNewCallback (Some f) now p = (p\<lparr>opt_result := None\<rparr>, [(f, r, now)])) \<and>
   (callback_fn p = Some g \<longrightarrow>
      acceptResult r' approx_now p = (p\<lparr>callback_fn := None\<rparr>, [(g, r', approx_now)])) \<and>
   count_list (map fst (snd (promise_calls cs
       (ResponsePromise_new tid response_deadline t0 :: ('s, 'e, 'cb) ResponsePromiseBase)))) h
     \<le> count_list (installed_callbacks cs) h \<and>
   (callback_fn (fst (promise_calls cs (ResponsePromise_new tid response_deadline t0))) = None \<or>
    opt_result (fst (promise_calls cs (ResponsePromise_new tid response_deadline t0))) = None)"
proof (intro conjI impI)
  assume "opt_result p = Some r"
  then show "acceptNewCallback (Some f) now p = (p\<lparr>opt_result := None\<rparr>, [(f, r, now)])"
    by (simp add: acceptNewCallback_def fetchResult_def)
next
  assume "callback_fn p = Some g"
  then show "acceptResult r' approx_now p = (p\<lparr>callback_fn := None\<rparr>, [(g, r', approx_now)])"
    by (simp add: acceptResult_def)
next
  let ?p0 = "ResponsePromise_new tid response_deadline t0 :: ('s, 'e, 'cb) ResponsePromiseBase"
  have "callback_fn ?p0 = None" by (simp add: ResponsePromise_new_def)
  with invoked_calls_count[of cs ?p0 h]
  show "count_list (map fst (snd (promise_calls cs ?p0))) h \<le> count_list (installed_callbacks cs) h"
    by simp
  have "callback_xor_result ?p0" by (simp add: callback_xor_result_def ResponsePromise_new_def)
  from callback_xor_result_calls[OF this, of cs]
  show "callback_fn (fst (promise_calls cs ?p0)) = None \<or> opt_result (fst (promise_calls cs ?p0)) = None"
    by (simp add: callback_xor_result_def)
qed

theorem callback_fires_at_most_once_witness:
  "promise_calls
      [CallAcceptNewCallback (Some 1) 5, CallAcceptResult (Inr 42) 10,
       CallAcceptResult (Inr 43) 11, CallAcceptNewCallback (Some 2) 12, CallFetchResult]
      (ResponsePromise_new 7 1000 0 :: (nat, unit, nat) ResponsePromiseBase) =
     (\<lparr>request_time = 0, callback_fn = None, opt_result = None, node_transfer_id = 7,
       node_deadline = 1000, is_linked = True\<rparr>,
      [(1, Inr 42, 10), (2, Inr 43, 12)])
   \<and> acceptResult (Inr 42) 10
        (\<lparr>request_time = 0, callback_fn = Some 1, opt_result = None, node_transfer_id = 7,
          node_deadline = 1000, is_linked = True\<rparr> :: (nat, unit, nat) ResponsePromiseBase) =
       (\<lparr>request_time = 0, callback_fn = None, opt_result = None, node_transfer_id = 7,
         node_deadline = 1000, is_linked = True\<rparr>, [(1, Inr 42, 10)])
   \<and> acceptNewCallback (Some 2) 12
        (\<lparr>request_time = 0, callback_fn = None, opt_result = Some (Inr 43), node_transfer_id = 7,
          node_deadline = 1000, is_linked = True\<rparr> :: (nat, unit, nat) ResponsePromiseBase) =
       (\<lparr>request_time = 0, callback_fn = None, opt_result = None, node_transfer_id = 7,
         node_deadline = 1000, is_linked = True\<rparr>, [(2, Inr 43, 12)])"
proof -
  let ?pa = "\<lparr>request_time = 0, callback_fn = Some 1, opt_result = None, node_transfer_id = 7,
          node_deadline = 1000, is_linked = True\<rparr> :: (nat, unit, nat) ResponsePromiseBase"
  let ?pb = "\<lparr>request_time = 0, callback_fn = None, opt_result = Some (Inr 43), node_transfer_id = 7,
          node_deadline = 1000, is_linked = True\<rparr> :: (nat, unit, nat) ResponsePromiseBase"
  have cb: "callback_fn ?pa = Some 1" by simp
  have res: "opt_result ?pb = Some (Inr 43)" by simp
  from callback_fires_at_most_once[where p = ?pa and g = 1 and r' = "Inr 42" and approx_now = 10,
      THEN conjunct2, THEN conjunct1, rule_format, OF cb]
  have b: "acceptResult (Inr 42) 10 ?pa = (?pa\<lparr>callback_fn := None\<rparr>, [(1, Inr 42, 10)])" .
  from callback_fires_at_most_once[where p = ?pb and r = "Inr 43" and f = 2 and now = 12,
      THEN conjunct1, rule_format, OF res]
  have a: "acceptNewCallback (Some 2) 12 ?pb = (?pb\<lparr>opt_result := None\<rparr>, [(2, Inr 43, 12)])" .
  have run: "promise_calls
      [CallAcceptNewCallback (Some 1) 5, CallAcceptResult (Inr 42) 10,
       CallAcceptResult (Inr 43) 11, CallAcceptNewCallback (Some 2) 12, CallFetchResult]
      (ResponsePromise_new 7 1000 0 :: (nat, unit, nat) ResponsePromiseBase) =
     (\<lparr>request_time = 0, callback_fn = None, opt_result = None, node_transfer_id = 7,
       node_deadline = 1000, is_linked = True\<rparr>,
      [(1, Inr 42, 10), (2, Inr 43, 12)])"
    by (simp add: ResponsePromise_new_def acceptNewCallback_def acceptResult_def fetchResult_def)
  from run a b show ?thesis by simp
qed

end
